theory Spec2Isabelle
  imports Main "HOL-Library.Sublist"
begin

section \<open>Strings\<close>

text \<open>
  A Python \<open>str\<close> is modelled as the list of its characters. Isabelle's \<open>char\<close> has eight
  bits, so a character is identified with its code point below 256; every string literal
  of the modelled sources lies in that range (\<open>CHR 0xE3\<close> is a-tilde, \<open>CHR 0xE7\<close> is
  c-cedilla, \<open>CHR 0xF5\<close> is o-tilde).

  Python's \<open>needle in hay\<close> on strings is the test for a contiguous occurrence, with the
  characters compared as they are.
\<close>

definition str_in :: "string \<Rightarrow> string \<Rightarrow> bool" where
  "str_in needle hay = sublist needle hay"

section \<open>orchestrator/write\_qa.py\<close>

subsection \<open>determine\_status\<close>

text \<open>
  \<^verbatim>\<open>
  def determine_status(lint_rc, types_rc, tests_rc):
      if lint_rc == "0" and types_rc == "0" and tests_rc == "0":
          return "pass"
      elif lint_rc == "0" and types_rc == "0":
          return "soft-fail"
      else:
          return "fail"
  \<close>
  The return codes arrive as strings from the command line and are compared with the
  string \<open>"0"\<close>.
\<close>

definition determine_status :: "string \<Rightarrow> string \<Rightarrow> string \<Rightarrow> string" where
  "determine_status lint_rc types_rc tests_rc =
     (if lint_rc = ''0'' \<and> types_rc = ''0'' \<and> tests_rc = ''0'' then ''pass''
      else if lint_rc = ''0'' \<and> types_rc = ''0'' then ''soft-fail''
      else ''fail'')"

subsection \<open>generate\_next\_actions\<close>

text \<open>
  The function appends to a list that starts empty; the three outer tests are on the
  return codes, the six inner tests are \<open>in\<close> tests on the raw outputs.
\<close>

definition generate_next_actions ::
  "string \<Rightarrow> string \<Rightarrow> string \<Rightarrow> string \<Rightarrow> string \<Rightarrow> string \<Rightarrow> string list" where
  "generate_next_actions lint_rc types_rc tests_rc lint_out types_out tests_out =
     (let actions = [];
          actions =
            (if lint_rc \<noteq> ''0'' then
               let actions = actions @ [''Corrigir erros de linting''];
                   actions = (if str_in ''unused import'' lint_out
                              then actions @ [''Remover imports n'' @ [CHR 0xE3] @ ''o utilizados'']
                              else actions);
                   actions = (if str_in ''line too long'' lint_out
                              then actions @ [''Quebrar linhas muito longas'']
                              else actions)
               in actions
             else actions);
          actions =
            (if types_rc \<noteq> ''0'' then
               let actions = actions @ [''Corrigir erros de type checking''];
                   actions = (if str_in ''missing type annotation'' types_out
                              then actions @ [''Adicionar anota'' @ [CHR 0xE7, CHR 0xF5] @ ''es de tipo'']
                              else actions);
                   actions = (if str_in ''incompatible types'' types_out
                              then actions @ [''Corrigir incompatibilidades de tipo'']
                              else actions)
               in actions
             else actions);
          actions =
            (if tests_rc \<noteq> ''0'' then
               let actions = actions @ [''Corrigir testes falhando''];
                   actions = (if str_in ''assertion error'' tests_out
                              then actions @ [''Verificar asser'' @ [CHR 0xE7, CHR 0xF5] @ ''es dos testes'']
                              else actions);
                   actions = (if str_in ''import error'' tests_out
                              then actions @ [''Verificar imports dos testes'']
                              else actions)
               in actions
             else actions)
      in actions)"

text \<open>
  The nine hints the function can produce, in the order in which the source appends them.
\<close>

definition all_actions :: "string list" where
  "all_actions =
     [''Corrigir erros de linting'',
      ''Remover imports n'' @ [CHR 0xE3] @ ''o utilizados'',
      ''Quebrar linhas muito longas'',
      ''Corrigir erros de type checking'',
      ''Adicionar anota'' @ [CHR 0xE7, CHR 0xF5] @ ''es de tipo'',
      ''Corrigir incompatibilidades de tipo'',
      ''Corrigir testes falhando'',
      ''Verificar asser'' @ [CHR 0xE7, CHR 0xF5] @ ''es dos testes'',
      ''Verificar imports dos testes'']"

text \<open>
  The reading of the specification's "case-insensitive substring match": both strings are
  lower-cased before the occurrence test. Only the lower-casing of the ASCII letters is
  written out; it is all the comparison with the (ASCII, lower-case) trigger phrases needs.
\<close>

definition lower_char :: "char \<Rightarrow> char" where
  "lower_char c =
     (case map_of (zip ''ABCDEFGHIJKLMNOPQRSTUVWXYZ'' ''abcdefghijklmnopqrstuvwxyz'') c of
        Some l \<Rightarrow> l
      | None \<Rightarrow> c)"

definition spec_case_insensitive_in :: "string \<Rightarrow> string \<Rightarrow> bool" where
  "spec_case_insensitive_in needle hay = str_in (map lower_char needle) (map lower_char hay)"

section \<open>Python exceptions\<close>

text \<open>
  The exceptions the modelled code raises or catches, each with the text \<open>str(e)\<close> is
  computed from. All of them are subclasses of Python's \<open>Exception\<close>, which is what the
  handlers \<open>except Exception\<close> catch; \<open>Exception msg\<close> stands for any other such instance
  whose \<open>str\<close> is \<open>msg\<close>. Signals that derive from \<open>BaseException\<close> only (task
  cancellation, keyboard interrupt) are outside the model. The text of a \<open>KeyError\<close> is the
  key between quotes, as \<open>repr\<close> gives it for a key without quotes or escapes; the texts
  carried by \<open>TypeError\<close> stand for the interpreter's messages and are not read anywhere.
\<close>

datatype py_exception =
    FileNotFoundError string
  | RuntimeError string
  | KeyError string
  | ConnectionClosed string
  | JSONDecodeError string
  | TypeError string
  | Exception string

fun str_of_exception :: "py_exception \<Rightarrow> string" where
  "str_of_exception (FileNotFoundError msg) = msg"
| "str_of_exception (RuntimeError msg) = msg"
| "str_of_exception (KeyError k) = [CHR 0x27] @ k @ [CHR 0x27]"
| "str_of_exception (ConnectionClosed msg) = msg"
| "str_of_exception (JSONDecodeError msg) = msg"
| "str_of_exception (TypeError msg) = msg"
| "str_of_exception (Exception msg) = msg"

text \<open>The result of awaiting an operation that returns \<open>None\<close> or raises.\<close>

type_synonym outcome = "py_exception + unit"

section \<open>src/maestro/orchestrator.py\<close>

subsection \<open>State\<close>

text \<open>
  One entry of \<open>pipeline_status\<close>: the dictionary
  \<open>{"status": ..., "progress": ..., "error": ...}\<close>, with Python's \<open>None\<close> as \<open>None\<close>.
\<close>

record stage_record =
  status :: string
  progress :: "string option"
  error :: "string option"

text \<open>
  The attributes that \<open>Orchestrator\<close> and \<open>DashboardServer\<close> both initialise in the same
  way; \<open>pipeline_status\<close> is a dictionary from stage names to stage records.
\<close>

record pipeline_state =
  current_task :: string
  pipeline_status :: "string \<rightharpoonup> stage_record"
  metrics :: "string \<rightharpoonup> int"

record orchestrator = pipeline_state +
  project_root :: string
  dashboard_url :: "string option"

definition waiting :: stage_record where
  "waiting = \<lparr>status = ''waiting'', progress = None, error = None\<rparr>"

definition initial_pipeline_status :: "string \<rightharpoonup> stage_record" where
  "initial_pipeline_status =
     [''planner'' \<mapsto> waiting, ''coder'' \<mapsto> waiting, ''integrator'' \<mapsto> waiting,
      ''tester'' \<mapsto> waiting, ''reporter'' \<mapsto> waiting]"

definition initial_metrics :: "string \<rightharpoonup> int" where
  "initial_metrics =
     [''totalTime'' \<mapsto> 0, ''testsPassed'' \<mapsto> 0, ''coverage'' \<mapsto> 0, ''filesTouched'' \<mapsto> 0]"

text \<open>\<open>Orchestrator.__init__\<close>.\<close>

definition Orchestrator :: "string \<Rightarrow> string option \<Rightarrow> orchestrator" where
  "Orchestrator root url =
     \<lparr>current_task = ''demo'', pipeline_status = initial_pipeline_status,
      metrics = initial_metrics, project_root = root, dashboard_url = url\<rparr>"

subsection \<open>Environment validation\<close>

text \<open>
  The file system and the search path are inputs of the model: \<open>path_exists\<close> answers
  \<open>Path.exists\<close> and \<open>which\<close> answers \<open>shutil.which\<close>. The issue file is
  \<open>project_root / "issues" / f"{task}.md"\<close>, rendered here for a project root without a
  trailing separator and a task id that is a plain file name; \<open>pathlib\<close> drops a root of
  \<open>"."\<close> where this rendering keeps it. The path is used to ask \<open>path_exists\<close> and in the
  text of the exception, which \<open>run_pipeline\<close> logs and discards.
\<close>

record environment =
  path_exists :: "string \<Rightarrow> bool"
  which :: "string \<Rightarrow> string option"

definition issue_file :: "orchestrator \<Rightarrow> string" where
  "issue_file s = project_root s @ ''/issues/'' @ current_task s @ ''.md''"

definition command_exists :: "environment \<Rightarrow> string \<Rightarrow> bool" where
  "command_exists env command = (which env command \<noteq> None)"

definition required_clis :: "string list" where
  "required_clis = [''gemini'', ''codex'', ''cursor'']"

text \<open>The loop \<open>for cli in required_clis\<close>, which raises at the first missing command.\<close>

fun check_clis :: "environment \<Rightarrow> string list \<Rightarrow> outcome" where
  "check_clis env [] = Inr ()"
| "check_clis env (cli # rest) =
     (if \<not> command_exists env cli
      then Inl (RuntimeError (''Required CLI not found: '' @ cli))
      else check_clis env rest)"

definition validate_environment :: "environment \<Rightarrow> orchestrator \<Rightarrow> outcome" where
  "validate_environment env s =
     (if \<not> path_exists env (issue_file s)
      then Inl (FileNotFoundError (''Issue file not found: '' @ issue_file s))
      else check_clis env required_clis)"

subsection \<open>Running one stage\<close>

text \<open>
  \<^verbatim>\<open>
  async def _run_stage(self, stage_name, stage_func):
      try:
          self.pipeline_status[stage_name]["status"] = "running"
          self.pipeline_status[stage_name]["progress"] = "0%"
          await stage_func()
          self.pipeline_status[stage_name]["status"] = "completed"
          self.pipeline_status[stage_name]["progress"] = "100%"
      except Exception as e:
          self.pipeline_status[stage_name]["status"] = "failed"
          self.pipeline_status[stage_name]["error"] = str(e)
          raise
  \<close>
  The stage operation is a parameter: what awaiting it yields. The model returns, besides
  the outcome and the new state, the trace of the statements executed: each assignment
  with the dictionary it leaves, and the invocation of the operation with the dictionary it
  finds. When \<open>stage_name\<close> is not a key, the first assignment raises \<open>KeyError\<close>, and so
  does the first assignment of the handler: the \<open>KeyError\<close> leaves the function and
  nothing has been written.
\<close>

datatype event =
    Assign "string \<rightharpoonup> stage_record"
  | Invoke string "string \<rightharpoonup> stage_record"

definition run_stage ::
  "string \<Rightarrow> outcome \<Rightarrow> orchestrator \<Rightarrow> outcome \<times> orchestrator \<times> event list" where
  "run_stage stage_name stage_func s =
     (case pipeline_status s stage_name of
        None \<Rightarrow> (Inl (KeyError stage_name), s, [])
      | Some r0 \<Rightarrow>
          let r1 = r0\<lparr>status := ''running''\<rparr>;
              ps1 = (pipeline_status s)(stage_name \<mapsto> r1);
              r2 = r1\<lparr>progress := Some ''0%''\<rparr>;
              ps2 = ps1(stage_name \<mapsto> r2)
          in (case stage_func of
                Inr u \<Rightarrow>
                  let r3 = r2\<lparr>status := ''completed''\<rparr>;
                      ps3 = ps2(stage_name \<mapsto> r3);
                      r4 = r3\<lparr>progress := Some ''100%''\<rparr>;
                      ps4 = ps3(stage_name \<mapsto> r4)
                  in (Inr (), s\<lparr>pipeline_status := ps4\<rparr>,
                      [Assign ps1, Assign ps2, Invoke stage_name ps2, Assign ps3, Assign ps4])
              | Inl e \<Rightarrow>
                  let r3 = r2\<lparr>status := ''failed''\<rparr>;
                      ps3 = ps2(stage_name \<mapsto> r3);
                      r4 = r3\<lparr>error := Some (str_of_exception e)\<rparr>;
                      ps4 = ps3(stage_name \<mapsto> r4)
                  in (Inl e, s\<lparr>pipeline_status := ps4\<rparr>,
                      [Assign ps1, Assign ps2, Invoke stage_name ps2, Assign ps3, Assign ps4])))"

subsection \<open>Running the pipeline\<close>

text \<open>
  The five stage operations (\<open>_run_planner\<close> ... \<open>_run_reporter\<close> in the source, which
  sleep and log) are parameters of the model, given by what awaiting each of them yields.
\<close>

record stage_functions =
  run_planner :: outcome
  run_coder :: outcome
  run_integrator :: outcome
  run_tester :: outcome
  run_reporter :: outcome

definition stages :: "stage_functions \<Rightarrow> (string \<times> outcome) list" where
  "stages fs =
     [(''planner'', run_planner fs),
      (''coder'', run_coder fs),
      (''integrator'', run_integrator fs),
      (''tester'', run_tester fs),
      (''reporter'', run_reporter fs)]"

text \<open>
  The loop \<open>for stage_name, stage_func in stages: await self._run_stage(...)\<close>: an
  exception leaves the loop.
\<close>

fun run_stages ::
  "(string \<times> outcome) list \<Rightarrow> orchestrator \<Rightarrow> outcome \<times> orchestrator \<times> event list" where
  "run_stages [] s = (Inr (), s, [])"
| "run_stages ((stage_name, stage_func) # rest) s =
     (case run_stage stage_name stage_func s of
        (Inl e, s', tr) \<Rightarrow> (Inl e, s', tr)
      | (Inr u, s', tr) \<Rightarrow>
          (case run_stages rest s' of (r, s'', tr') \<Rightarrow> (r, s'', tr @ tr')))"

text \<open>
  \<open>run_pipeline\<close> stores the task, validates, runs the stages and returns \<open>True\<close>; any
  \<open>Exception\<close> raised on the way is caught and turned into \<open>False\<close>.
\<close>

definition run_pipeline ::
  "environment \<Rightarrow> stage_functions \<Rightarrow> string \<Rightarrow> orchestrator
     \<Rightarrow> bool \<times> orchestrator \<times> event list" where
  "run_pipeline env fs task s0 =
     (let s = s0\<lparr>current_task := task\<rparr> in
      case validate_environment env s of
        Inl e \<Rightarrow> (False, s, [])
      | Inr u \<Rightarrow>
          (case run_stages (stages fs) s of
             (Inl e, s', tr) \<Rightarrow> (False, s', tr)
           | (Inr u', s', tr) \<Rightarrow> (True, s', tr)))"

text \<open>Reading a trace: the stages whose operation was invoked, in order.\<close>

fun invoked :: "event list \<Rightarrow> string list" where
  "invoked [] = []"
| "invoked (Assign ps # tr) = invoked tr"
| "invoked (Invoke n ps # tr) = n # invoked tr"

text \<open>
  Reading a trace at one stage: the successive values of its status, and whether the
  operation was invoked, as the list of what each event shows.
\<close>

datatype observation = Status string "string option" "string option" | Await string "string option"

fun observe :: "string \<Rightarrow> event \<Rightarrow> observation option" where
  "observe n (Assign ps) =
     (case ps n of None \<Rightarrow> None | Some r \<Rightarrow> Some (Status (status r) (progress r) (error r)))"
| "observe n (Invoke m ps) =
     (case ps n of None \<Rightarrow> None
      | Some r \<Rightarrow> if m = n then Some (Await (status r) (progress r)) else None)"

section \<open>src/maestro/dashboard.py\<close>

subsection \<open>State, messages and the network\<close>

text \<open>
  A connected client is a \<open>WebSocketServerProtocol\<close> object; the model names it by a
  number, and two clients are equal when they are the same object. Of the attributes of
  \<open>DashboardServer\<close>, \<open>host\<close>, \<open>port\<close> and \<open>project_root\<close> are read by \<open>start_server\<close>
  only and are left out.
\<close>

type_synonym client = nat

record dashboard = pipeline_state +
  connected_clients :: "client list"
  doc_status :: "(string \<rightharpoonup> string option) option"

text \<open>\<open>DashboardServer.__init__\<close>.\<close>

definition DashboardServer :: dashboard where
  "DashboardServer =
     \<lparr>current_task = ''demo'', pipeline_status = initial_pipeline_status,
      metrics = initial_metrics, connected_clients = [], doc_status = None\<rparr>"

text \<open>
  The dictionaries handed to \<open>json.dumps\<close>, one constructor for each \<open>"type"\<close> the
  modelled methods build; the last field of a message that has one is its timestamp.
\<close>

datatype message =
    Status_update string "string \<rightharpoonup> stage_record" "string \<rightharpoonup> int"
      "(string \<rightharpoonup> string option) option" string
  | Log_message string string string
  | Pipeline_start string string
  | Doc_update "string \<rightharpoonup> string option"
  | Error_message string

text \<open>
  The world outside: \<open>dumps\<close> is \<open>json.dumps\<close> on these dictionaries, and
  \<open>send client text\<close> is what awaiting \<open>client.send(text)\<close> yields, a return or an
  exception.
\<close>

record network =
  dumps :: "message \<Rightarrow> string"
  send :: "client \<Rightarrow> string \<Rightarrow> outcome"

text \<open>What a call does to the outside: a serialisation, or a text delivered to a client.\<close>

datatype effect =
    Dumps message
  | Delivered client string

subsection \<open>Registering and broadcasting\<close>

text \<open>
  \<open>unregister_client\<close>: \<open>list.remove\<close> deletes the first occurrence, and is called only
  when the client is in the list.
\<close>

definition unregister_client :: "client \<Rightarrow> dashboard \<Rightarrow> dashboard" where
  "unregister_client websocket s =
     (if websocket \<in> set (connected_clients s)
      then s\<lparr>connected_clients := remove1 websocket (connected_clients s)\<rparr>
      else s)"

text \<open>
  \<^verbatim>\<open>
  for client in self.connected_clients:
      try:
          await client.send(message_str)
      except websockets.exceptions.ConnectionClosed:
          disconnected.append(client)
  \<close>
  The handler names one exception class: any other exception raised by \<open>send\<close> leaves the
  loop and the method.
\<close>

fun send_loop ::
  "network \<Rightarrow> string \<Rightarrow> client list \<Rightarrow> client list
     \<Rightarrow> (py_exception + client list) \<times> effect list" where
  "send_loop net message_str [] disconnected = (Inr disconnected, [])"
| "send_loop net message_str (client # rest) disconnected =
     (case send net client message_str of
        Inr u \<Rightarrow>
          (case send_loop net message_str rest disconnected of
             (r, effs) \<Rightarrow> (r, Delivered client message_str # effs))
      | Inl e \<Rightarrow>
          (case e of
             ConnectionClosed m \<Rightarrow> send_loop net message_str rest (disconnected @ [client])
           | _ \<Rightarrow> (Inl e, [])))"

text \<open>
  \<open>send_to_all_clients\<close>: returns at once when nobody is connected; otherwise serialises
  the message, runs the loop, and unregisters the clients collected in \<open>disconnected\<close>.
\<close>

definition send_to_all_clients ::
  "network \<Rightarrow> message \<Rightarrow> dashboard \<Rightarrow> outcome \<times> dashboard \<times> effect list" where
  "send_to_all_clients net message s =
     (if connected_clients s = [] then (Inr (), s, [])
      else
        let message_str = dumps net message in
        case send_loop net message_str (connected_clients s) [] of
          (Inl e, effs) \<Rightarrow> (Inl e, s, Dumps message # effs)
        | (Inr disconnected, effs) \<Rightarrow>
            (Inr (), fold unregister_client disconnected s, Dumps message # effs))"

text \<open>The expression \<open>await websocket.send(json.dumps(message))\<close>.\<close>

definition websocket_send ::
  "network \<Rightarrow> client \<Rightarrow> message \<Rightarrow> dashboard \<Rightarrow> outcome \<times> dashboard \<times> effect list" where
  "websocket_send net websocket message s =
     (let message_str = dumps net message in
      case send net websocket message_str of
        Inr u \<Rightarrow> (Inr (), s, [Dumps message, Delivered websocket message_str])
      | Inl e \<Rightarrow> (Inl e, s, [Dumps message]))"

text \<open>
  \<open>send_status_update\<close> and \<open>add_log\<close>; the argument \<open>now\<close> is the value of
  \<open>datetime.now().isoformat()\<close> read while the message is built.
\<close>

definition send_status_update ::
  "network \<Rightarrow> string \<Rightarrow> client option \<Rightarrow> dashboard \<Rightarrow> outcome \<times> dashboard \<times> effect list" where
  "send_status_update net now websocket s =
     (let message = Status_update (current_task s) (pipeline_status s) (metrics s)
                      (doc_status s) now in
      case websocket of
        Some w \<Rightarrow> websocket_send net w message s
      | None \<Rightarrow> send_to_all_clients net message s)"

definition add_log ::
  "network \<Rightarrow> string \<Rightarrow> string \<Rightarrow> string \<Rightarrow> dashboard \<Rightarrow> outcome \<times> dashboard \<times> effect list" where
  "add_log net now level msg s = send_to_all_clients net (Log_message level msg now) s"

subsection \<open>Messages from clients\<close>

text \<open>
  The loop \<open>for node in self.pipeline_status\<close> of the \<open>start_pipeline\<close> branch assigns a
  fresh waiting record to every key of the dictionary; its result does not depend on the
  order of the keys.
\<close>

definition reset_pipeline_status :: "(string \<rightharpoonup> stage_record) \<Rightarrow> (string \<rightharpoonup> stage_record)" where
  "reset_pipeline_status ps = (\<lambda>node. case ps node of None \<Rightarrow> None | Some r \<Rightarrow> Some waiting)"

text \<open>The dictionary stored by the \<open>doc_update\<close> branch; \<open>data.get(k)\<close> is \<open>data k\<close>.\<close>

definition doc_status_of :: "(string \<rightharpoonup> string) \<Rightarrow> string \<Rightarrow> (string \<rightharpoonup> string option)" where
  "doc_status_of data now =
     [''task'' \<mapsto> data ''task'', ''status'' \<mapsto> data ''status'', ''passed'' \<mapsto> data ''passed'',
      ''failed'' \<mapsto> data ''failed'', ''coverage'' \<mapsto> data ''coverage'',
      ''lint_errors'' \<mapsto> data ''lint_errors'', ''type_errors'' \<mapsto> data ''type_errors'',
      ''timestamp'' \<mapsto> Some (case data ''timestamp'' of Some t \<Rightarrow> t | None \<Rightarrow> now)]"

text \<open>
  \<open>handle_client_message\<close>. The decoded message \<open>data\<close> is a dictionary whose values are
  taken to be strings; \<open>clock i\<close> is the value of the \<open>i\<close>-th reading of
  \<open>datetime.now().isoformat()\<close> during the call. An exception raised by a step leaves the
  method with the state and the effects reached so far.
\<close>

definition handle_client_message ::
  "network \<Rightarrow> (nat \<Rightarrow> string) \<Rightarrow> client \<Rightarrow> (string \<rightharpoonup> string) \<Rightarrow> dashboard
     \<Rightarrow> outcome \<times> dashboard \<times> effect list" where
  "handle_client_message net clock websocket data s =
     (let message_type = data ''type'' in
      if message_type = Some ''get_status'' then
        send_status_update net (clock 0) (Some websocket) s
      else if message_type = Some ''start_pipeline'' then
        let s1 = s\<lparr>current_task := (case data ''task'' of Some t \<Rightarrow> t | None \<Rightarrow> ''demo'')\<rparr>;
            s2 = s1\<lparr>pipeline_status := reset_pipeline_status (pipeline_status s1)\<rparr>
        in (case add_log net (clock 0) ''INFO''
                   (''Starting pipeline for task: '' @ current_task s2) s2 of
              (Inl e, s3, effs) \<Rightarrow> (Inl e, s3, effs)
            | (Inr u, s3, effs) \<Rightarrow>
                (case send_to_all_clients net (Pipeline_start (current_task s3) (clock 1)) s3 of
                   (r, s4, effs') \<Rightarrow> (r, s4, effs @ effs')))
      else if message_type = Some ''update_task'' then
        let s1 = s\<lparr>current_task := (case data ''task'' of Some t \<Rightarrow> t | None \<Rightarrow> ''demo'')\<rparr>
        in add_log net (clock 0) ''INFO'' (''Switched to task: '' @ current_task s1) s1
      else if message_type = Some ''doc_update'' then
        let s1 = s\<lparr>doc_status := Some (doc_status_of data (clock 0))\<rparr>
        in send_to_all_clients net (Doc_update (doc_status_of data (clock 0))) s1
      else
        websocket_send net websocket
          (Error_message (''Unknown message type: '' @
             (case message_type of Some t \<Rightarrow> t | None \<Rightarrow> ''None''))) s)"

text \<open>Reading the effects of a call: the messages serialised, in order.\<close>

fun serialised :: "effect list \<Rightarrow> message list" where
  "serialised [] = []"
| "serialised (Dumps m # effs) = m # serialised effs"
| "serialised (Delivered x str # effs) = serialised effs"

text \<open>The keys with which both classes initialise \<open>pipeline_status\<close>.\<close>

definition stage_names :: "string list" where
  "stage_names = [''planner'', ''coder'', ''integrator'', ''tester'', ''reporter'']"

section \<open>Configuration: src/maestro/git\_agent.py and src/maestro/ci\_cd\_agent.py\<close>

subsection \<open>JSON values\<close>

text \<open>
  What \<open>json.load\<close> returns: \<open>None\<close>, booleans, numbers (integers here), strings, lists,
  and dictionaries with string keys. \<open>truthy\<close> is Python's truth value of such a value, as
  an \<open>if\<close> on it tests.
\<close>

datatype json =
    JNull
  | JBool bool
  | JInt int
  | JString string
  | JList "json list"
  | JDict "string \<rightharpoonup> json"

fun truthy :: "json \<Rightarrow> bool" where
  "truthy JNull = False"
| "truthy (JBool b) = b"
| "truthy (JInt n) = (n \<noteq> 0)"
| "truthy (JString str) = (str \<noteq> [])"
| "truthy (JList l) = (l \<noteq> [])"
| "truthy (JDict d) = (d \<noteq> Map.empty)"

subsection \<open>The defaults\<close>

text \<open>
  \<open>DEFAULT_CONFIG\<close> of each module, as the list of its items: a section name and the
  dictionary of the section.
\<close>

definition git_section :: "string \<rightharpoonup> json" where
  "git_section =
     [''auto_commit'' \<mapsto> JBool True, ''auto_push'' \<mapsto> JBool True, ''auto_pr'' \<mapsto> JBool True,
      ''branch_prefix'' \<mapsto> JString ''feature/'',
      ''commit_message_template'' \<mapsto> JString ''feat: {task_id} - {description}'']"

definition ci_cd_section :: "string \<rightharpoonup> json" where
  "ci_cd_section =
     [''auto_deploy_staging'' \<mapsto> JBool True, ''auto_deploy_production'' \<mapsto> JBool False,
      ''rollback_on_failure'' \<mapsto> JBool True, ''deploy_timeout'' \<mapsto> JInt 300,
      ''github_actions_workflow'' \<mapsto> JString ''maestro-automation.yml'']"

definition exclude_patterns :: json where
  "exclude_patterns =
     JList [JString ''*.env'', JString ''secrets/*'', JString ''*.key'', JString ''*.log'',
            JString ''*.tmp'']"

definition git_agent_DEFAULT_CONFIG :: "(string \<times> (string \<rightharpoonup> json)) list" where
  "git_agent_DEFAULT_CONFIG =
     [(''git'', git_section),
      (''ci_cd'', ci_cd_section),
      (''security'', [''exclude_patterns'' \<mapsto> exclude_patterns, ''max_diff_lines'' \<mapsto> JInt 1000]),
      (''logging'', [''log_file'' \<mapsto> JString ''logs/git-automation.log''])]"

definition ci_cd_agent_DEFAULT_CONFIG :: "(string \<times> (string \<rightharpoonup> json)) list" where
  "ci_cd_agent_DEFAULT_CONFIG =
     [(''git'', git_section),
      (''ci_cd'', ci_cd_section),
      (''security'',
         [''exclude_patterns'' \<mapsto> exclude_patterns, ''max_diff_lines'' \<mapsto> JInt 1000,
          ''require_manual_approval'' \<mapsto> JBool True, ''require_qa_pass'' \<mapsto> JBool True]),
      (''logging'', [''log_file'' \<mapsto> JString ''logs/ci-cd-automation.log''])]"

text \<open>\<open>DEFAULT_CONFIG.copy()\<close>, the configuration used when the file cannot be used.\<close>

definition default_config :: "(string \<times> (string \<rightharpoonup> json)) list \<Rightarrow> (string \<rightharpoonup> json)" where
  "default_config DEFAULT_CONFIG = map_of (map (\<lambda>(key, defaults). (key, JDict defaults)) DEFAULT_CONFIG)"

subsection \<open>merge\_defaults and \_load\_config\<close>

text \<open>
  \<^verbatim>\<open>
  def merge_defaults(cfg):
      merged = {}
      for key, defaults in DEFAULT_CONFIG.items():
          val = cfg.get(key)
          if not isinstance(val, dict):
              merged[key] = defaults.copy()
          else:
              section = defaults.copy()
              for k2, v2 in defaults.items():
                  section.setdefault(k2, v2)
              section.update(val)
              merged[key] = section
      for k in cfg.keys():
          if k not in merged:
              merged[k] = cfg[k]
      return merged
  \<close>
  The function is the same in both modules and reads the module's \<open>DEFAULT_CONFIG\<close>, a
  parameter here. On dictionaries as maps, \<open>section.setdefault(k2, v2)\<close> for every item of
  \<open>defaults\<close> is \<open>defaults ++ section\<close> and \<open>section.update(val)\<close> is \<open>section ++ val\<close>.
\<close>

fun merge_sections ::
  "(string \<times> (string \<rightharpoonup> json)) list \<Rightarrow> (string \<rightharpoonup> json) \<Rightarrow> (string \<rightharpoonup> json)
     \<Rightarrow> (string \<rightharpoonup> json)" where
  "merge_sections [] cfg merged = merged"
| "merge_sections ((key, defaults) # items) cfg merged =
     (case cfg key of
        Some (JDict val) \<Rightarrow>
          (let section = defaults;
               section = defaults ++ section;
               section = section ++ val
           in merge_sections items cfg (merged(key \<mapsto> JDict section)))
      | _ \<Rightarrow> merge_sections items cfg (merged(key \<mapsto> JDict defaults)))"

definition merge_defaults ::
  "(string \<times> (string \<rightharpoonup> json)) list \<Rightarrow> (string \<rightharpoonup> json) \<Rightarrow> (string \<rightharpoonup> json)" where
  "merge_defaults DEFAULT_CONFIG cfg =
     (let merged = merge_sections DEFAULT_CONFIG cfg Map.empty
      in (\<lambda>k. case merged k of Some v \<Rightarrow> Some v | None \<Rightarrow> cfg k))"

text \<open>
  \<open>_load_config\<close>: \<open>file\<close> is what opening and parsing the file yields. The handler names
  \<open>FileNotFoundError\<close>, \<open>json.JSONDecodeError\<close> and \<open>TypeError\<close>; another exception leaves
  the method.
\<close>

definition load_config ::
  "(string \<times> (string \<rightharpoonup> json)) list \<Rightarrow> py_exception + json
     \<Rightarrow> py_exception + (string \<rightharpoonup> json)" where
  "load_config DEFAULT_CONFIG file =
     (case file of
        Inr (JDict cfg) \<Rightarrow> Inr (merge_defaults DEFAULT_CONFIG cfg)
      | Inr _ \<Rightarrow> Inr (default_config DEFAULT_CONFIG)
      | Inl (FileNotFoundError m) \<Rightarrow> Inr (default_config DEFAULT_CONFIG)
      | Inl (JSONDecodeError m) \<Rightarrow> Inr (default_config DEFAULT_CONFIG)
      | Inl (TypeError m) \<Rightarrow> Inr (default_config DEFAULT_CONFIG)
      | Inl e \<Rightarrow> Inl e)"

section \<open>src/maestro/ci\_cd\_agent.py: deployment\<close>

text \<open>
  \<open>self.config[a][b]\<close>: a missing key raises \<open>KeyError\<close>, and subscripting with a string a
  section that is not a dictionary raises \<open>TypeError\<close>.
\<close>

definition config_get :: "(string \<rightharpoonup> json) \<Rightarrow> string \<Rightarrow> string \<Rightarrow> py_exception + json" where
  "config_get config a b =
     (case config a of
        None \<Rightarrow> Inl (KeyError a)
      | Some (JDict section) \<Rightarrow>
          (case section b of None \<Rightarrow> Inl (KeyError b) | Some v \<Rightarrow> Inr v)
      | Some _ \<Rightarrow> Inl (TypeError ''not subscriptable with a string''))"

text \<open>
  The outside world is \<open>subprocess.run\<close>: for an argument vector, the return code and the
  standard error of the process, or the exception raised when it cannot be started. Every
  model returns the list of the argument vectors it has run, in order. Logging is left out.
\<close>

type_synonym subprocess = "string list \<Rightarrow> py_exception + int \<times> string"

text \<open>\<open>_check_github_cli\<close> catches \<open>FileNotFoundError\<close> only.\<close>

definition check_github_cli :: "subprocess \<Rightarrow> (py_exception + bool) \<times> string list list" where
  "check_github_cli run =
     (case run [''gh'', ''--version''] of
        Inr (returncode, err) \<Rightarrow> (Inr (returncode = 0), [[''gh'', ''--version'']])
      | Inl (FileNotFoundError m) \<Rightarrow> (Inr False, [[''gh'', ''--version'']])
      | Inl e \<Rightarrow> (Inl e, [[''gh'', ''--version'']]))"

text \<open>
  The call \<open>subprocess.run(['gh', 'workflow', 'run', workflow_name, '--field',
  f'task_id={task_id}', '--field', 'action=...'])\<close>; an argument that is not a string
  makes \<open>subprocess.run\<close> raise \<open>TypeError\<close> before anything runs.
\<close>

definition workflow_argv :: "string \<Rightarrow> string \<Rightarrow> string \<Rightarrow> string list" where
  "workflow_argv workflow_name task_id action =
     [''gh'', ''workflow'', ''run'', workflow_name, ''--field'', ''task_id='' @ task_id,
      ''--field'', ''action='' @ action]"

definition run_workflow ::
  "subprocess \<Rightarrow> json \<Rightarrow> string \<Rightarrow> string \<Rightarrow> (py_exception + bool) \<times> string list list" where
  "run_workflow run workflow_name task_id action =
     (case workflow_name of
        JString w \<Rightarrow>
          (case run (workflow_argv w task_id action) of
             Inr (returncode, err) \<Rightarrow> (Inr (returncode = 0), [workflow_argv w task_id action])
           | Inl e \<Rightarrow> (Inl e, [workflow_argv w task_id action]))
      | _ \<Rightarrow> (Inl (TypeError ''expected str, bytes or os.PathLike object''), []))"

text \<open>
  The body of the \<open>try\<close> of \<open>trigger_production_deploy\<close>: the value returned or the
  exception raised. The test of \<open>auto_deploy_production\<close> only logs a warning, but reads the
  configuration and can raise.
\<close>

definition trigger_production_deploy_try ::
  "subprocess \<Rightarrow> (string \<rightharpoonup> json) \<Rightarrow> string \<Rightarrow> (py_exception + bool) \<times> string list list" where
  "trigger_production_deploy_try run config task_id =
     (case config_get config ''ci_cd'' ''auto_deploy_production'' of
        Inl e \<Rightarrow> (Inl e, [])
      | Inr auto_deploy_production \<Rightarrow>
     (case config_get config ''security'' ''require_manual_approval'' of
        Inl e \<Rightarrow> (Inl e, [])
      | Inr require_manual_approval \<Rightarrow>
          if truthy require_manual_approval then (Inr True, [])
          else
     (case check_github_cli run of
        (Inl e, calls) \<Rightarrow> (Inl e, calls)
      | (Inr available, calls) \<Rightarrow>
          if \<not> available then (Inr True, calls)
          else
     (case config_get config ''ci_cd'' ''github_actions_workflow'' of
        Inl e \<Rightarrow> (Inl e, calls)
      | Inr workflow_name \<Rightarrow>
          (case run_workflow run workflow_name task_id ''deploy-production'' of
             (r, calls') \<Rightarrow> (r, calls @ calls'))))))"

text \<open>\<open>trigger_production_deploy\<close>: \<open>except Exception\<close> returns \<open>False\<close>.\<close>

definition trigger_production_deploy ::
  "subprocess \<Rightarrow> (string \<rightharpoonup> json) \<Rightarrow> string \<Rightarrow> bool \<times> string list list" where
  "trigger_production_deploy run config task_id =
     (case trigger_production_deploy_try run config task_id of
        (Inr result, calls) \<Rightarrow> (result, calls)
      | (Inl e, calls) \<Rightarrow> (False, calls))"

text \<open>
  \<open>deploy_staging\<close>, in the same way; its \<open>except Exception\<close> returns \<open>True\<close>. The branch
  name is used for logging only.
\<close>

definition deploy_staging_try ::
  "subprocess \<Rightarrow> (string \<rightharpoonup> json) \<Rightarrow> string \<Rightarrow> (py_exception + bool) \<times> string list list" where
  "deploy_staging_try run config task_id =
     (case config_get config ''ci_cd'' ''auto_deploy_staging'' of
        Inl e \<Rightarrow> (Inl e, [])
      | Inr auto_deploy_staging \<Rightarrow>
          if \<not> truthy auto_deploy_staging then (Inr True, [])
          else
     (case check_github_cli run of
        (Inl e, calls) \<Rightarrow> (Inl e, calls)
      | (Inr available, calls) \<Rightarrow>
          if \<not> available then (Inr True, calls)
          else
     (case config_get config ''ci_cd'' ''github_actions_workflow'' of
        Inl e \<Rightarrow> (Inl e, calls)
      | Inr workflow_name \<Rightarrow>
          (case run_workflow run workflow_name task_id ''deploy-staging'' of
             (r, calls') \<Rightarrow> (r, calls @ calls')))))"

definition deploy_staging ::
  "subprocess \<Rightarrow> (string \<rightharpoonup> json) \<Rightarrow> string \<Rightarrow> string \<Rightarrow> bool \<times> string list list" where
  "deploy_staging run config task_id branch_name =
     (case deploy_staging_try run config task_id of
        (Inr result, calls) \<Rightarrow> (result, calls)
      | (Inl e, calls) \<Rightarrow> (True, calls))"

section \<open>Properties of write\_qa.py\<close>

text \<open>
  Claim C1. For every triple of return-code strings, \<open>determine_status\<close> returns
  \<open>"pass"\<close> exactly when all three are \<open>"0"\<close>, \<open>"soft-fail"\<close> exactly when lint and types
  are \<open>"0"\<close> and tests is not, and \<open>"fail"\<close> exactly in the remaining cases; the four
  documented examples evaluate to pass, soft-fail, fail, fail.
\<close>

theorem determine_status_spec:
  "(determine_status l t s = ''pass'' \<longleftrightarrow> (l = ''0'' \<and> t = ''0'' \<and> s = ''0''))
   \<and> (determine_status l t s = ''soft-fail'' \<longleftrightarrow> (l = ''0'' \<and> t = ''0'' \<and> s \<noteq> ''0''))
   \<and> (determine_status l t s = ''fail'' \<longleftrightarrow> \<not> (l = ''0'' \<and> t = ''0''))
   \<and> determine_status ''0'' ''0'' ''0'' = ''pass''
   \<and> determine_status ''0'' ''0'' ''1'' = ''soft-fail''
   \<and> determine_status ''1'' ''0'' ''1'' = ''fail''
   \<and> determine_status ''1'' ''1'' ''1'' = ''fail''"
  by (auto simp add: determine_status_def)

theorem determine_status_spec_witness:
  "determine_status ''0'' ''0'' ''7'' = ''soft-fail'' \<and> determine_status ''2'' ''0'' ''0'' = ''fail''"
  using determine_status_spec [of "''0''" "''0''" "''7''"]
        determine_status_spec [of "''2''" "''0''" "''0''"]
  by simp

subsection \<open>The next-action hints\<close>

lemma if_append_right: "(if c then xs @ ys else xs) = xs @ (if c then ys else [])"
  by simp

text \<open>The list the function builds, written as the concatenation of its three blocks.\<close>

lemma generate_next_actions_blocks:
  "generate_next_actions lr tr sr lo to so =
    (if lr \<noteq> ''0'' then [''Corrigir erros de linting'']
        @ (if str_in ''unused import'' lo
           then [''Remover imports n'' @ [CHR 0xE3] @ ''o utilizados''] else [])
        @ (if str_in ''line too long'' lo then [''Quebrar linhas muito longas''] else [])
     else [])
  @ (if tr \<noteq> ''0'' then [''Corrigir erros de type checking'']
        @ (if str_in ''missing type annotation'' to
           then [''Adicionar anota'' @ [CHR 0xE7, CHR 0xF5] @ ''es de tipo''] else [])
        @ (if str_in ''incompatible types'' to
           then [''Corrigir incompatibilidades de tipo''] else [])
     else [])
  @ (if sr \<noteq> ''0'' then [''Corrigir testes falhando'']
        @ (if str_in ''assertion error'' so
           then [''Verificar asser'' @ [CHR 0xE7, CHR 0xF5] @ ''es dos testes''] else [])
        @ (if str_in ''import error'' so then [''Verificar imports dos testes''] else [])
     else [])"
  unfolding generate_next_actions_def
  by (simp only: Let_def if_append_right append_assoc append_Nil)

lemma block_mem:
  "x \<in> set (if c then [a] @ (if p then [h1] else []) @ (if q then [h2] else []) else [])
     \<longleftrightarrow> c \<and> (x = a \<or> (p \<and> x = h1) \<or> (q \<and> x = h2))"
  by auto

lemma block_subseq:
  "subseq (if c then [a] @ (if p then [h1] else []) @ (if q then [h2] else []) else [])
          ([a, h1, h2] @ [])"
  by auto

lemma all_actions_blocks:
  "all_actions =
     ([''Corrigir erros de linting'', ''Remover imports n'' @ [CHR 0xE3] @ ''o utilizados'',
       ''Quebrar linhas muito longas''] @ [])
   @ ([''Corrigir erros de type checking'',
       ''Adicionar anota'' @ [CHR 0xE7, CHR 0xF5] @ ''es de tipo'',
       ''Corrigir incompatibilidades de tipo''] @ [])
   @ ([''Corrigir testes falhando'',
       ''Verificar asser'' @ [CHR 0xE7, CHR 0xF5] @ ''es dos testes'',
       ''Verificar imports dos testes''] @ [])"
  unfolding all_actions_def by (simp only: append_Cons append_Nil append_Nil2)

lemma generate_next_actions_subseq:
  "subseq (generate_next_actions lr tr sr lo to so) all_actions"
  unfolding generate_next_actions_blocks all_actions_blocks
  by (intro list_emb_append_mono block_subseq)

lemma generate_next_actions_mem:
  "(''Corrigir erros de linting'' \<in> set (generate_next_actions lr tr sr lo to so)
        \<longleftrightarrow> lr \<noteq> ''0'')
 \<and> (''Remover imports n'' @ [CHR 0xE3] @ ''o utilizados''
        \<in> set (generate_next_actions lr tr sr lo to so)
        \<longleftrightarrow> lr \<noteq> ''0'' \<and> str_in ''unused import'' lo)
 \<and> (''Quebrar linhas muito longas'' \<in> set (generate_next_actions lr tr sr lo to so)
        \<longleftrightarrow> lr \<noteq> ''0'' \<and> str_in ''line too long'' lo)
 \<and> (''Corrigir erros de type checking'' \<in> set (generate_next_actions lr tr sr lo to so)
        \<longleftrightarrow> tr \<noteq> ''0'')
 \<and> (''Adicionar anota'' @ [CHR 0xE7, CHR 0xF5] @ ''es de tipo''
        \<in> set (generate_next_actions lr tr sr lo to so)
        \<longleftrightarrow> tr \<noteq> ''0'' \<and> str_in ''missing type annotation'' to)
 \<and> (''Corrigir incompatibilidades de tipo'' \<in> set (generate_next_actions lr tr sr lo to so)
        \<longleftrightarrow> tr \<noteq> ''0'' \<and> str_in ''incompatible types'' to)
 \<and> (''Corrigir testes falhando'' \<in> set (generate_next_actions lr tr sr lo to so)
        \<longleftrightarrow> sr \<noteq> ''0'')
 \<and> (''Verificar asser'' @ [CHR 0xE7, CHR 0xF5] @ ''es dos testes''
        \<in> set (generate_next_actions lr tr sr lo to so)
        \<longleftrightarrow> sr \<noteq> ''0'' \<and> str_in ''assertion error'' so)
 \<and> (''Verificar imports dos testes'' \<in> set (generate_next_actions lr tr sr lo to so)
        \<longleftrightarrow> sr \<noteq> ''0'' \<and> str_in ''import error'' so)"
  unfolding generate_next_actions_blocks set_append Un_iff block_mem
  by simp

lemma generate_next_actions_six:
  "lr \<noteq> ''0'' \<Longrightarrow> tr \<noteq> ''0'' \<Longrightarrow> sr \<noteq> ''0'' \<Longrightarrow>
   str_in ''unused import'' lo \<Longrightarrow> \<not> str_in ''line too long'' lo \<Longrightarrow>
   str_in ''incompatible types'' to \<Longrightarrow> \<not> str_in ''missing type annotation'' to \<Longrightarrow>
   str_in ''assertion error'' so \<Longrightarrow> \<not> str_in ''import error'' so \<Longrightarrow>
   generate_next_actions lr tr sr lo to so =
     [''Corrigir erros de linting'', ''Remover imports n'' @ [CHR 0xE3] @ ''o utilizados'',
      ''Corrigir erros de type checking'', ''Corrigir incompatibilidades de tipo'',
      ''Corrigir testes falhando'',
      ''Verificar asser'' @ [CHR 0xE7, CHR 0xF5] @ ''es dos testes'']"
  unfolding generate_next_actions_blocks by simp

text \<open>
  Claim C2, as the specification words it, makes the hint triggers case-insensitive. The
  source tests \<open>"unused import" in lint_out\<close> on the raw output: the lint output
  \<open>"Unused Import"\<close> matches the trigger once lower-cased, and the hint is not produced.
\<close>

theorem generate_next_actions_case_insensitive_counterexample:
  "spec_case_insensitive_in ''unused import'' ''Unused Import''
   \<and> generate_next_actions ''1'' ''0'' ''0'' ''Unused Import'' [] []
       = [''Corrigir erros de linting'']"
  by (simp add: spec_case_insensitive_in_def lower_char_def generate_next_actions_def
                str_in_def sublist_Cons_right)

text \<open>
  Claim C2, amended. \<open>generate_next_actions\<close> is a function of its six inputs. Its result
  lists hints in the fixed order of \<open>all_actions\<close>, without repetition; the three general
  hints appear exactly when the matching return code differs from \<open>"0"\<close>, and each of the
  six specific hints appears exactly when, in addition, its trigger phrase occurs in the raw
  output as a case-sensitive substring. For return codes other than \<open>"0"\<close> and outputs that
  contain \<open>"unused import"\<close>, \<open>"incompatible types"\<close>, \<open>"assertion error"\<close> and none of the
  other three trigger phrases, the result is exactly the six documented actions.
\<close>

theorem generate_next_actions_case_sensitive:
  "subseq (generate_next_actions lr tr sr lo to so) all_actions
 \<and> distinct all_actions
 \<and> (''Corrigir erros de linting'' \<in> set (generate_next_actions lr tr sr lo to so)
        \<longleftrightarrow> lr \<noteq> ''0'')
 \<and> (''Remover imports n'' @ [CHR 0xE3] @ ''o utilizados''
        \<in> set (generate_next_actions lr tr sr lo to so)
        \<longleftrightarrow> lr \<noteq> ''0'' \<and> str_in ''unused import'' lo)
 \<and> (''Quebrar linhas muito longas'' \<in> set (generate_next_actions lr tr sr lo to so)
        \<longleftrightarrow> lr \<noteq> ''0'' \<and> str_in ''line too long'' lo)
 \<and> (''Corrigir erros de type checking'' \<in> set (generate_next_actions lr tr sr lo to so)
        \<longleftrightarrow> tr \<noteq> ''0'')
 \<and> (''Adicionar anota'' @ [CHR 0xE7, CHR 0xF5] @ ''es de tipo''
        \<in> set (generate_next_actions lr tr sr lo to so)
        \<longleftrightarrow> tr \<noteq> ''0'' \<and> str_in ''missing type annotation'' to)
 \<and> (''Corrigir incompatibilidades de tipo'' \<in> set (generate_next_actions lr tr sr lo to so)
        \<longleftrightarrow> tr \<noteq> ''0'' \<and> str_in ''incompatible types'' to)
 \<and> (''Corrigir testes falhando'' \<in> set (generate_next_actions lr tr sr lo to so)
        \<longleftrightarrow> sr \<noteq> ''0'')
 \<and> (''Verificar asser'' @ [CHR 0xE7, CHR 0xF5] @ ''es dos testes''
        \<in> set (generate_next_actions lr tr sr lo to so)
        \<longleftrightarrow> sr \<noteq> ''0'' \<and> str_in ''assertion error'' so)
 \<and> (''Verificar imports dos testes'' \<in> set (generate_next_actions lr tr sr lo to so)
        \<longleftrightarrow> sr \<noteq> ''0'' \<and> str_in ''import error'' so)
 \<and> (lr \<noteq> ''0'' \<and> tr \<noteq> ''0'' \<and> sr \<noteq> ''0''
      \<and> str_in ''unused import'' lo \<and> \<not> str_in ''line too long'' lo
      \<and> str_in ''incompatible types'' to \<and> \<not> str_in ''missing type annotation'' to
      \<and> str_in ''assertion error'' so \<and> \<not> str_in ''import error'' so
      \<longrightarrow> generate_next_actions lr tr sr lo to so =
           [''Corrigir erros de linting'',
            ''Remover imports n'' @ [CHR 0xE3] @ ''o utilizados'',
            ''Corrigir erros de type checking'', ''Corrigir incompatibilidades de tipo'',
            ''Corrigir testes falhando'',
            ''Verificar asser'' @ [CHR 0xE7, CHR 0xF5] @ ''es dos testes''])"
proof -
  have d: "distinct all_actions"
    by (simp add: all_actions_def)
  show ?thesis
    using generate_next_actions_subseq [of lr tr sr lo to so] d
          generate_next_actions_mem [of lr tr sr lo to so]
          generate_next_actions_six [of lr tr sr lo to so]
    by blast
qed

theorem generate_next_actions_case_sensitive_witness:
  "generate_next_actions ''1'' ''1'' ''1''
      ''unused import'' ''incompatible types'' ''assertion error'' =
     [''Corrigir erros de linting'',
      ''Remover imports n'' @ [CHR 0xE3] @ ''o utilizados'',
      ''Corrigir erros de type checking'', ''Corrigir incompatibilidades de tipo'',
      ''Corrigir testes falhando'',
      ''Verificar asser'' @ [CHR 0xE7, CHR 0xF5] @ ''es dos testes'']"
proof -
  have h: "''1'' \<noteq> ''0''
      \<and> str_in ''unused import'' ''unused import'' \<and> \<not> str_in ''line too long'' ''unused import''
      \<and> str_in ''incompatible types'' ''incompatible types''
      \<and> \<not> str_in ''missing type annotation'' ''incompatible types''
      \<and> str_in ''assertion error'' ''assertion error''
      \<and> \<not> str_in ''import error'' ''assertion error''"
    by (simp add: str_in_def sublist_Cons_right)
  show ?thesis
    using h generate_next_actions_case_sensitive
            [of "''1''" "''1''" "''1''" "''unused import''" "''incompatible types''"
                "''assertion error''"]
    by blast
qed


section \<open>Properties of the orchestrator\<close>

subsection \<open>One stage\<close>

lemma run_stage_returns:
  assumes "pipeline_status s n = Some r"
  shows "run_stage n (Inr u) s =
     (Inr (),
      s\<lparr>pipeline_status := (pipeline_status s)(n \<mapsto> r\<lparr>status := ''completed'', progress := Some ''100%''\<rparr>)\<rparr>,
      [Assign ((pipeline_status s)(n \<mapsto> r\<lparr>status := ''running''\<rparr>)),
       Assign ((pipeline_status s)(n \<mapsto> r\<lparr>status := ''running'', progress := Some ''0%''\<rparr>)),
       Invoke n ((pipeline_status s)(n \<mapsto> r\<lparr>status := ''running'', progress := Some ''0%''\<rparr>)),
       Assign ((pipeline_status s)(n \<mapsto> r\<lparr>status := ''completed'', progress := Some ''0%''\<rparr>)),
       Assign ((pipeline_status s)(n \<mapsto> r\<lparr>status := ''completed'', progress := Some ''100%''\<rparr>))])"
  using assms by (cases r) (simp add: run_stage_def Let_def)

lemma run_stage_raises:
  assumes "pipeline_status s n = Some r"
  shows "run_stage n (Inl e) s =
     (Inl e,
      s\<lparr>pipeline_status := (pipeline_status s)(n \<mapsto>
           r\<lparr>status := ''failed'', progress := Some ''0%'', error := Some (str_of_exception e)\<rparr>)\<rparr>,
      [Assign ((pipeline_status s)(n \<mapsto> r\<lparr>status := ''running''\<rparr>)),
       Assign ((pipeline_status s)(n \<mapsto> r\<lparr>status := ''running'', progress := Some ''0%''\<rparr>)),
       Invoke n ((pipeline_status s)(n \<mapsto> r\<lparr>status := ''running'', progress := Some ''0%''\<rparr>)),
       Assign ((pipeline_status s)(n \<mapsto> r\<lparr>status := ''failed'', progress := Some ''0%''\<rparr>)),
       Assign ((pipeline_status s)(n \<mapsto>
           r\<lparr>status := ''failed'', progress := Some ''0%'', error := Some (str_of_exception e)\<rparr>))])"
  using assms by (cases r) (simp add: run_stage_def Let_def)

subsection \<open>The stage loop\<close>

text \<open>
  The loop over any list of stages with distinct names that are keys of the dictionary:
  when the stage at position \<open>k\<close> is the first whose operation raises, the loop raises
  that exception, has invoked exactly the first \<open>k + 1\<close> operations, and has written to no
  other entry.
\<close>

lemma run_stages_first_failure:
  assumes "distinct (map fst sts)"
      and "set (map fst sts) \<subseteq> dom (pipeline_status s)"
      and "k < length sts"
      and "snd (sts ! k) = Inl e"
      and "\<forall>j<k. snd (sts ! j) = Inr ()"
  shows "\<exists>s' tr. run_stages sts s = (Inl e, s', tr)
           \<and> invoked tr = take (Suc k) (map fst sts)
           \<and> (\<forall>n. n \<notin> set (take (Suc k) (map fst sts)) \<longrightarrow> pipeline_status s' n = pipeline_status s n)
           \<and> (\<forall>j<k. pipeline_status s' (fst (sts ! j)) =
                  map_option (\<lambda>r. r\<lparr>status := ''completed'', progress := Some ''100%''\<rparr>)
                    (pipeline_status s (fst (sts ! j))))
           \<and> pipeline_status s' (fst (sts ! k)) =
                  map_option (\<lambda>r. r\<lparr>status := ''failed'', progress := Some ''0%'',
                                   error := Some (str_of_exception e)\<rparr>)
                    (pipeline_status s (fst (sts ! k)))
           \<and> current_task s' = current_task s"
  using assms
proof (induction sts arbitrary: k s)
  case Nil
  then show ?case by simp
next
  case (Cons a rest)
  obtain n f where a: "a = (n, f)" by (cases a)
  from Cons.prems(2) a obtain r where r: "pipeline_status s n = Some r" by auto
  show ?case
  proof (cases k)
    case 0
    with Cons.prems(4) a have f: "f = Inl e" by simp
    show ?thesis
      using 0 a f r by (simp add: run_stage_raises)
  next
    case (Suc k')
    with Cons.prems(5) a have f: "f = Inr ()" by auto
    define s1 where "s1 = s\<lparr>pipeline_status := (pipeline_status s)(n \<mapsto> r\<lparr>status := ''completed'', progress := Some ''100%''\<rparr>)\<rparr>"
    obtain tr1 where step: "run_stage n f s = (Inr (), s1, tr1)" and inv1: "invoked tr1 = [n]"
      using run_stage_returns [OF r] f by (simp add: s1_def)
    have d: "distinct (map fst rest)" and nn: "n \<notin> set (map fst rest)"
      using Cons.prems(1) a by auto
    have dom: "set (map fst rest) \<subseteq> dom (pipeline_status s1)"
      using Cons.prems(2) by (auto simp: s1_def)
    have k': "k' < length rest" using Cons.prems(3) Suc by simp
    have fl: "snd (rest ! k') = Inl e" using Cons.prems(4) Suc by simp
    have oks: "\<forall>j<k'. snd (rest ! j) = Inr ()" using Cons.prems(5) Suc by auto
    from Cons.IH [OF d dom k' fl oks]
    obtain s' tr where
      run: "run_stages rest s1 = (Inl e, s', tr)"
      and inv: "invoked tr = take (Suc k') (map fst rest)"
      and frame: "\<forall>m. m \<notin> set (take (Suc k') (map fst rest)) \<longrightarrow> pipeline_status s' m = pipeline_status s1 m"
      and compl: "\<forall>j<k'. pipeline_status s' (fst (rest ! j)) =
                  map_option (\<lambda>r. r\<lparr>status := ''completed'', progress := Some ''100%''\<rparr>)
                    (pipeline_status s1 (fst (rest ! j)))"
      and failed: "pipeline_status s' (fst (rest ! k')) =
                  map_option (\<lambda>r. r\<lparr>status := ''failed'', progress := Some ''0%'',
                                   error := Some (str_of_exception e)\<rparr>)
                    (pipeline_status s1 (fst (rest ! k')))"
      and task: "current_task s' = current_task s1"
      by blast
    have other: "\<And>m. m \<noteq> n \<Longrightarrow> pipeline_status s1 m = pipeline_status s m"
      by (simp add: s1_def)
    have restne: "\<And>j. j < length rest \<Longrightarrow> fst (rest ! j) \<noteq> n"
      using nn by (metis length_map nth_map nth_mem)
    have ntake: "n \<notin> set (take (Suc k') (map fst rest))"
      using nn by (meson in_set_takeD)
    have invapp: "\<And>t1 t2. invoked (t1 @ t2) = invoked t1 @ invoked t2"
    proof -
      fix t1 t2 show "invoked (t1 @ t2) = invoked t1 @ invoked t2"
        by (induction t1 rule: invoked.induct) auto
    qed
    have 1: "run_stages (a # rest) s = (Inl e, s', tr1 @ tr)"
      using a step run by simp
    have 2: "invoked (tr1 @ tr) = take (Suc k) (map fst (a # rest))"
      using inv inv1 Suc a by (simp add: invapp)
    have 3: "\<forall>m. m \<notin> set (take (Suc k) (map fst (a # rest))) \<longrightarrow> pipeline_status s' m = pipeline_status s m"
      using frame other Suc a by auto
    have 4: "\<forall>j<k. pipeline_status s' (fst ((a # rest) ! j)) =
                  map_option (\<lambda>r. r\<lparr>status := ''completed'', progress := Some ''100%''\<rparr>)
                    (pipeline_status s (fst ((a # rest) ! j)))"
    proof (intro allI impI)
      fix j assume j: "j < k"
      show "pipeline_status s' (fst ((a # rest) ! j)) =
                  map_option (\<lambda>r. r\<lparr>status := ''completed'', progress := Some ''100%''\<rparr>)
                    (pipeline_status s (fst ((a # rest) ! j)))"
      proof (cases j)
        case 0
        have "pipeline_status s' n = pipeline_status s1 n" using frame ntake by blast
        then show ?thesis using 0 a r by (simp add: s1_def)
      next
        case (Suc j')
        with j \<open>k = Suc k'\<close> have j': "j' < k'" by simp
        then have "j' < length rest" using k' by simp
        then show ?thesis using compl j' Suc other restne by simp
      qed
    qed
    have 5: "pipeline_status s' (fst ((a # rest) ! k)) =
                  map_option (\<lambda>r. r\<lparr>status := ''failed'', progress := Some ''0%'',
                                   error := Some (str_of_exception e)\<rparr>)
                    (pipeline_status s (fst ((a # rest) ! k)))"
      using failed Suc other restne k' by simp
    have 6: "current_task s' = current_task s" using task by (simp add: s1_def)
    show ?thesis using 1 2 3 4 5 6 by blast
  qed
qed


subsection \<open>The pipeline\<close>

lemma stages_distinct: "distinct (map fst (stages fs))"
  by (simp add: stages_def)

lemma check_clis_Inr: "check_clis env clis = Inr () \<longleftrightarrow> (\<forall>cli\<in>set clis. which env cli \<noteq> None)"
  by (induction clis) (auto simp: command_exists_def)

lemma validate_environment_Inr:
  "validate_environment env s = Inr () \<longleftrightarrow>
     path_exists env (issue_file s) \<and> (\<forall>cli\<in>set required_clis. which env cli \<noteq> None)"
  by (simp add: validate_environment_def check_clis_Inr)

text \<open>
  Claim C3. Environment validation has passed and the five stages run in order. When the
  stage at position \<open>k\<close> is the first whose operation raises, \<open>run_pipeline\<close> returns
  \<open>False\<close>; the operations invoked are exactly those of the first \<open>k + 1\<close> stages, so the
  run stops at the failing stage; the earlier stages are completed, the failing stage is
  failed with the failure text as its error, and the record of every later stage is what
  it was before the call: a stage that was waiting, with no progress and no error, still is.
\<close>

theorem run_pipeline_halts:
  assumes env: "validate_environment env (s\<lparr>current_task := task\<rparr>) = Inr ()"
      and keys: "set (map fst (stages fs)) \<subseteq> dom (pipeline_status s)"
      and k: "k < length (stages fs)"
      and fail: "snd (stages fs ! k) = Inl e"
      and ok: "\<forall>j<k. snd (stages fs ! j) = Inr ()"
  shows "\<exists>s' tr. run_pipeline env fs task s = (False, s', tr)
           \<and> invoked tr = take (Suc k) (map fst (stages fs))
           \<and> (\<forall>j<k. pipeline_status s' (fst (stages fs ! j)) =
                  map_option (\<lambda>r. r\<lparr>status := ''completed'', progress := Some ''100%''\<rparr>)
                    (pipeline_status s (fst (stages fs ! j))))
           \<and> pipeline_status s' (fst (stages fs ! k)) =
                  map_option (\<lambda>r. r\<lparr>status := ''failed'', progress := Some ''0%'',
                                   error := Some (str_of_exception e)\<rparr>)
                    (pipeline_status s (fst (stages fs ! k)))
           \<and> (\<forall>j<length (stages fs). k < j \<longrightarrow>
                  pipeline_status s' (fst (stages fs ! j)) = pipeline_status s (fst (stages fs ! j))
                \<and> (pipeline_status s (fst (stages fs ! j)) = Some waiting \<longrightarrow>
                     pipeline_status s' (fst (stages fs ! j)) = Some waiting))"
proof -
  let ?s = "s\<lparr>current_task := task\<rparr>"
  have keys': "set (map fst (stages fs)) \<subseteq> dom (pipeline_status ?s)"
    using keys by simp
  from run_stages_first_failure [OF stages_distinct keys' k fail ok]
  obtain s' tr where
    run: "run_stages (stages fs) ?s = (Inl e, s', tr)"
    and inv: "invoked tr = take (Suc k) (map fst (stages fs))"
    and frame: "\<forall>n. n \<notin> set (take (Suc k) (map fst (stages fs))) \<longrightarrow>
                  pipeline_status s' n = pipeline_status ?s n"
    and compl: "\<forall>j<k. pipeline_status s' (fst (stages fs ! j)) =
                  map_option (\<lambda>r. r\<lparr>status := ''completed'', progress := Some ''100%''\<rparr>)
                    (pipeline_status ?s (fst (stages fs ! j)))"
    and failed: "pipeline_status s' (fst (stages fs ! k)) =
                  map_option (\<lambda>r. r\<lparr>status := ''failed'', progress := Some ''0%'',
                                   error := Some (str_of_exception e)\<rparr>)
                    (pipeline_status ?s (fst (stages fs ! k)))"
    by blast
  have res: "run_pipeline env fs task s = (False, s', tr)"
    using env run by (simp add: run_pipeline_def Let_def)
  have later: "\<forall>j<length (stages fs). k < j \<longrightarrow>
                 fst (stages fs ! j) \<notin> set (take (Suc k) (map fst (stages fs)))"
  proof (intro allI impI)
    fix j assume j: "j < length (stages fs)" and kj: "k < j"
    show "fst (stages fs ! j) \<notin> set (take (Suc k) (map fst (stages fs)))"
    proof
      assume "fst (stages fs ! j) \<in> set (take (Suc k) (map fst (stages fs)))"
      then obtain i where i: "i < Suc k" "i < length (stages fs)"
          and eq: "map fst (stages fs) ! i = fst (stages fs ! j)"
        by (auto simp: in_set_conv_nth)
      then have "map fst (stages fs) ! i = map fst (stages fs) ! j" using j by simp
      moreover have "i < length (map fst (stages fs))" "j < length (map fst (stages fs))"
        using i j by simp_all
      ultimately have "i = j"
        using stages_distinct [of fs] nth_eq_iff_index_eq by blast
      with i kj show False by simp
    qed
  qed
  show ?thesis
    using res inv compl failed frame later by auto
qed


theorem run_pipeline_halts_witness:
  "\<exists>s' tr. run_pipeline \<lparr>path_exists = (\<lambda>p. True), which = (\<lambda>c. Some (''/usr/bin/'' @ c))\<rparr>
       \<lparr>run_planner = Inr (), run_coder = Inl (Exception ''boom''), run_integrator = Inr (),
        run_tester = Inr (), run_reporter = Inr ()\<rparr> ''T-1'' (Orchestrator ''.'' None) = (False, s', tr)
     \<and> invoked tr = [''planner'', ''coder'']
     \<and> pipeline_status s' ''planner'' = Some \<lparr>status = ''completed'', progress = Some ''100%'', error = None\<rparr>
     \<and> pipeline_status s' ''coder'' = Some \<lparr>status = ''failed'', progress = Some ''0%'', error = Some ''boom''\<rparr>
     \<and> pipeline_status s' ''integrator'' = Some waiting
     \<and> pipeline_status s' ''tester'' = Some waiting
     \<and> pipeline_status s' ''reporter'' = Some waiting"
proof -
  let ?env = "\<lparr>path_exists = (\<lambda>p. True), which = (\<lambda>c. Some (''/usr/bin/'' @ c))\<rparr>"
  let ?fs = "\<lparr>run_planner = Inr (), run_coder = Inl (Exception ''boom''), run_integrator = Inr (),
        run_tester = Inr (), run_reporter = Inr ()\<rparr>"
  let ?s = "Orchestrator ''.'' None"
  have h1: "validate_environment ?env (?s\<lparr>current_task := ''T-1''\<rparr>) = Inr ()"
    by (simp add: validate_environment_def required_clis_def command_exists_def)
  have h2: "set (map fst (stages ?fs)) \<subseteq> dom (pipeline_status ?s)"
    by (simp add: stages_def Orchestrator_def initial_pipeline_status_def)
  have h3: "Suc 0 < length (stages ?fs)"
    by (simp add: stages_def)
  have h4: "snd (stages ?fs ! Suc 0) = Inl (Exception ''boom'')"
    by (simp add: stages_def)
  have h5: "\<forall>j<Suc 0. snd (stages ?fs ! j) = Inr ()"
    by (simp add: stages_def)
  from run_pipeline_halts [OF h1 h2 h3 h4 h5]
  obtain s' tr where
    r: "run_pipeline ?env ?fs ''T-1'' ?s = (False, s', tr)"
    and i: "invoked tr = take (Suc (Suc 0)) (map fst (stages ?fs))"
    and c: "\<forall>j<Suc 0. pipeline_status s' (fst (stages ?fs ! j)) =
                  map_option (\<lambda>r. r\<lparr>status := ''completed'', progress := Some ''100%''\<rparr>)
                    (pipeline_status ?s (fst (stages ?fs ! j)))"
    and f: "pipeline_status s' (fst (stages ?fs ! Suc 0)) =
                  map_option (\<lambda>r. r\<lparr>status := ''failed'', progress := Some ''0%'',
                                   error := Some (str_of_exception (Exception ''boom''))\<rparr>)
                    (pipeline_status ?s (fst (stages ?fs ! Suc 0)))"
    and l: "\<forall>j<length (stages ?fs). Suc 0 < j \<longrightarrow>
                  pipeline_status s' (fst (stages ?fs ! j)) = pipeline_status ?s (fst (stages ?fs ! j))
                \<and> (pipeline_status ?s (fst (stages ?fs ! j)) = Some waiting \<longrightarrow>
                     pipeline_status s' (fst (stages ?fs ! j)) = Some waiting)"
    by blast
  have len: "length (stages ?fs) = 5" by (simp add: stages_def)
  have c0: "pipeline_status s' ''planner'' = Some \<lparr>status = ''completed'', progress = Some ''100%'', error = None\<rparr>"
    using c [rule_format, of 0]
    by (simp add: stages_def Orchestrator_def initial_pipeline_status_def waiting_def)
  have f1: "pipeline_status s' ''coder'' = Some \<lparr>status = ''failed'', progress = Some ''0%'', error = Some ''boom''\<rparr>"
    using f by (simp add: stages_def Orchestrator_def initial_pipeline_status_def waiting_def)
  have l2: "pipeline_status s' ''integrator'' = Some waiting"
    using l [rule_format, of 2] len
    by (simp add: stages_def Orchestrator_def initial_pipeline_status_def)
  have l3: "pipeline_status s' ''tester'' = Some waiting"
    using l [rule_format, of 3] len
    by (simp add: stages_def Orchestrator_def initial_pipeline_status_def)
  have l4: "pipeline_status s' ''reporter'' = Some waiting"
    using l [rule_format, of 4] len
    by (simp add: stages_def Orchestrator_def initial_pipeline_status_def)
  have i': "invoked tr = [''planner'', ''coder'']"
    using i by (simp add: stages_def)
  show ?thesis using r i' c0 f1 l2 l3 l4 by blast
qed

text \<open>
  Claim C4. When the issue file of the task does not exist or one of the required commands
  is not found, \<open>run_pipeline\<close> returns \<open>False\<close>, no stage operation is invoked and nothing
  is written to \<open>pipeline_status\<close>: the state differs from the one before the call in
  \<open>current_task\<close> only.
\<close>

theorem run_pipeline_validation_failure:
  assumes "\<not> path_exists env (issue_file (s\<lparr>current_task := task\<rparr>))
           \<or> (\<exists>cli\<in>set required_clis. which env cli = None)"
  shows "run_pipeline env fs task s = (False, s\<lparr>current_task := task\<rparr>, [])
       \<and> pipeline_status (fst (snd (run_pipeline env fs task s))) = pipeline_status s
       \<and> invoked (snd (snd (run_pipeline env fs task s))) = []"
proof -
  have "validate_environment env (s\<lparr>current_task := task\<rparr>) \<noteq> Inr ()"
    using assms validate_environment_Inr by blast
  then obtain e where "validate_environment env (s\<lparr>current_task := task\<rparr>) = Inl e"
    by (cases "validate_environment env (s\<lparr>current_task := task\<rparr>)") auto
  then show ?thesis
    by (simp add: run_pipeline_def Let_def)
qed

theorem run_pipeline_validation_failure_witness:
  "run_pipeline \<lparr>path_exists = (\<lambda>p. True), which = (\<lambda>c. if c = ''codex'' then None else Some c)\<rparr>
      \<lparr>run_planner = Inr (), run_coder = Inr (), run_integrator = Inr (),
       run_tester = Inr (), run_reporter = Inr ()\<rparr> ''T-1'' (Orchestrator ''.'' None)
     = (False, (Orchestrator ''.'' None)\<lparr>current_task := ''T-1''\<rparr>, [])"
proof -
  have h: "\<not> path_exists \<lparr>path_exists = (\<lambda>p. True), which = (\<lambda>c. if c = ''codex'' then None else Some c)\<rparr>
              (issue_file ((Orchestrator ''.'' None)\<lparr>current_task := ''T-1''\<rparr>))
           \<or> (\<exists>cli\<in>set required_clis.
                 which \<lparr>path_exists = (\<lambda>p. True), which = (\<lambda>c. if c = ''codex'' then None else Some c)\<rparr> cli = None)"
    by (simp add: required_clis_def)
  from run_pipeline_validation_failure [OF h] show ?thesis by blast
qed

text \<open>
  Claim C5. For a stage that is a key of \<open>pipeline_status\<close>, whatever its record was:
  the runner first sets the status to running and the progress to \<open>"0%"\<close>; the operation
  is invoked on that record; after it the status becomes completed and the progress
  \<open>"100%"\<close> when the operation returns, or the status becomes failed and the error the text
  of the exception when it raises. No terminal status is written before the operation is
  invoked, and the outcome handed to the caller is that of the operation: the exception is
  raised again after the record has been updated.
\<close>

theorem run_stage_transitions:
  assumes "pipeline_status s n = Some r"
  shows "fst (run_stage n f s) = f
       \<and> (case f of
            Inr u \<Rightarrow>
              map (observe n) (snd (snd (run_stage n f s))) =
                [Some (Status ''running'' (progress r) (error r)),
                 Some (Status ''running'' (Some ''0%'') (error r)),
                 Some (Await ''running'' (Some ''0%'')),
                 Some (Status ''completed'' (Some ''0%'') (error r)),
                 Some (Status ''completed'' (Some ''100%'') (error r))]
              \<and> pipeline_status (fst (snd (run_stage n f s))) n =
                  Some \<lparr>status = ''completed'', progress = Some ''100%'', error = error r\<rparr>
          | Inl e \<Rightarrow>
              map (observe n) (snd (snd (run_stage n f s))) =
                [Some (Status ''running'' (progress r) (error r)),
                 Some (Status ''running'' (Some ''0%'') (error r)),
                 Some (Await ''running'' (Some ''0%'')),
                 Some (Status ''failed'' (Some ''0%'') (error r)),
                 Some (Status ''failed'' (Some ''0%'') (Some (str_of_exception e)))]
              \<and> pipeline_status (fst (snd (run_stage n f s))) n =
                  Some \<lparr>status = ''failed'', progress = Some ''0%'',
                        error = Some (str_of_exception e)\<rparr>)"
proof (cases f)
  case (Inl e)
  show ?thesis unfolding Inl run_stage_raises [OF assms] by simp
next
  case (Inr u)
  show ?thesis unfolding Inr run_stage_returns [OF assms] by simp
qed

theorem run_stage_transitions_witness:
  "fst (run_stage ''coder'' (Inl (RuntimeError ''boom'')) (Orchestrator ''.'' None)) = Inl (RuntimeError ''boom'')
   \<and> map (observe ''coder'') (snd (snd (run_stage ''coder'' (Inl (RuntimeError ''boom'')) (Orchestrator ''.'' None)))) =
        [Some (Status ''running'' None None),
         Some (Status ''running'' (Some ''0%'') None),
         Some (Await ''running'' (Some ''0%'')),
         Some (Status ''failed'' (Some ''0%'') None),
         Some (Status ''failed'' (Some ''0%'') (Some ''boom''))]"
proof -
  have h: "pipeline_status (Orchestrator ''.'' None) ''coder'' = Some waiting"
    by (simp add: Orchestrator_def initial_pipeline_status_def)
  from run_stage_transitions [OF h, of "Inl (RuntimeError ''boom'')"]
  show ?thesis by (simp add: waiting_def)
qed

text \<open>
  Claim C10. A stage that completes keeps the error its record carried: the runner writes
  the status and the progress only. In particular a stage that failed with exception \<open>e\<close>
  and is run again to completion ends with status completed and the text of \<open>e\<close> as its
  error.
\<close>

theorem run_stage_keeps_error:
  assumes "pipeline_status s n = Some r"
  shows "pipeline_status (fst (snd (run_stage n (Inr ()) s))) n =
           Some \<lparr>status = ''completed'', progress = Some ''100%'', error = error r\<rparr>
       \<and> (error r = Some msg \<longrightarrow>
            (\<exists>r'. pipeline_status (fst (snd (run_stage n (Inr ()) s))) n = Some r'
                 \<and> status r' = ''completed'' \<and> error r' = Some msg))
       \<and> pipeline_status (fst (snd (run_stage n (Inr ()) (fst (snd (run_stage n (Inl e) s)))))) n =
           Some \<lparr>status = ''completed'', progress = Some ''100%'',
                 error = Some (str_of_exception e)\<rparr>"
proof -
  let ?s1 = "fst (snd (run_stage n (Inl e) s))"
  have 1: "pipeline_status ?s1 n =
      Some (r\<lparr>status := ''failed'', progress := Some ''0%'', error := Some (str_of_exception e)\<rparr>)"
    unfolding run_stage_raises [OF assms] by simp
  show ?thesis
    unfolding run_stage_returns [OF 1] unfolding run_stage_returns [OF assms] by simp
qed

theorem run_stage_keeps_error_witness:
  "pipeline_status (fst (snd (run_stage ''tester'' (Inr ())
       ((Orchestrator ''.'' None)\<lparr>pipeline_status := initial_pipeline_status
           (''tester'' \<mapsto> \<lparr>status = ''failed'', progress = Some ''0%'', error = Some ''old''\<rparr>)\<rparr>)))) ''tester''
   = Some \<lparr>status = ''completed'', progress = Some ''100%'', error = Some ''old''\<rparr>"
proof -
  have h: "pipeline_status ((Orchestrator ''.'' None)\<lparr>pipeline_status := initial_pipeline_status
           (''tester'' \<mapsto> \<lparr>status = ''failed'', progress = Some ''0%'', error = Some ''old''\<rparr>)\<rparr>) ''tester''
     = Some \<lparr>status = ''failed'', progress = Some ''0%'', error = Some ''old''\<rparr>"
    by simp
  from run_stage_keeps_error [OF h, of "''old''"] show ?thesis by simp
qed


section \<open>Properties of the dashboard\<close>

subsection \<open>Broadcasting\<close>

text \<open>
  When every send returns or raises \<open>ConnectionClosed\<close>, the loop collects the clients
  whose send raised and delivers to the others.
\<close>

lemma send_loop_benign:
  assumes "\<forall>x\<in>set xs. send net x str = Inr () \<or> (\<exists>m. send net x str = Inl (ConnectionClosed m))"
  shows "send_loop net str xs acc =
           (Inr (acc @ filter (\<lambda>x. send net x str \<noteq> Inr ()) xs),
            map (\<lambda>x. Delivered x str) (filter (\<lambda>x. send net x str = Inr ()) xs))"
  using assms
proof (induction xs arbitrary: acc)
  case Nil
  then show ?case by simp
next
  case (Cons x xs)
  from Cons.prems have rest: "\<forall>x\<in>set xs. send net x str = Inr () \<or> (\<exists>m. send net x str = Inl (ConnectionClosed m))"
    by simp
  from Cons.prems consider "send net x str = Inr ()" | m where "send net x str = Inl (ConnectionClosed m)"
    by auto
  then show ?case
  proof cases
    case 1
    then show ?thesis using Cons.IH [OF rest, of acc] by simp
  next
    case 2
    then show ?thesis using Cons.IH [OF rest, of "acc @ [x]"] by simp
  qed
qed

lemma fold_unregister_client:
  assumes "connected_clients s = pre @ xs" and "\<forall>x\<in>set pre. \<not> P x"
  shows "fold unregister_client (filter P xs) s = s\<lparr>connected_clients := pre @ filter (\<lambda>x. \<not> P x) xs\<rparr>"
  using assms
proof (induction xs arbitrary: pre s)
  case Nil
  then show ?case by simp
next
  case (Cons x xs)
  show ?case
  proof (cases "P x")
    case True
    then have xpre: "x \<notin> set pre" using Cons.prems(2) by blast
    let ?s1 = "unregister_client x s"
    have s1: "?s1 = s\<lparr>connected_clients := pre @ xs\<rparr>"
      using Cons.prems(1) xpre by (simp add: unregister_client_def remove1_append)
    have c1: "connected_clients ?s1 = pre @ xs" by (simp add: s1)
    show ?thesis
      using True Cons.IH [OF c1 Cons.prems(2)] by (simp add: s1)
  next
    case False
    have c: "connected_clients s = (pre @ [x]) @ xs" using Cons.prems(1) by simp
    have p: "\<forall>y\<in>set (pre @ [x]). \<not> P y" using Cons.prems(2) False by simp
    show ?thesis using False Cons.IH [OF c p] by simp
  qed
qed

lemma send_to_all_clients_benign:
  assumes "\<forall>x\<in>set (connected_clients s).
             send net x (dumps net message) = Inr ()
           \<or> (\<exists>m. send net x (dumps net message) = Inl (ConnectionClosed m))"
      and "connected_clients s \<noteq> []"
  shows "send_to_all_clients net message s =
           (Inr (),
            s\<lparr>connected_clients :=
                 filter (\<lambda>x. send net x (dumps net message) = Inr ()) (connected_clients s)\<rparr>,
            Dumps message #
              map (\<lambda>x. Delivered x (dumps net message))
                (filter (\<lambda>x. send net x (dumps net message) = Inr ()) (connected_clients s)))"
proof -
  have f: "fold unregister_client
             (filter (\<lambda>x. send net x (dumps net message) \<noteq> Inr ()) (connected_clients s)) s =
           s\<lparr>connected_clients := [] @ filter (\<lambda>x. \<not> send net x (dumps net message) \<noteq> Inr ()) (connected_clients s)\<rparr>"
    by (rule fold_unregister_client) simp_all
  show ?thesis
    using assms(2) f
    by (simp add: send_to_all_clients_def Let_def send_loop_benign [OF assms(1)])
qed


lemma serialised_Delivered: "serialised (map (\<lambda>x. Delivered x str) xs) = []"
  by (induction xs) simp_all

lemma send_to_all_clients_summary:
  assumes "\<forall>x\<in>set (connected_clients s).
             send net x (dumps net message) = Inr ()
           \<or> (\<exists>m. send net x (dumps net message) = Inl (ConnectionClosed m))"
  shows "\<exists>s' effs. send_to_all_clients net message s = (Inr (), s', effs)
           \<and> pipeline_status s' = pipeline_status s
           \<and> current_task s' = current_task s
           \<and> connected_clients s' =
               filter (\<lambda>x. send net x (dumps net message) = Inr ()) (connected_clients s)
           \<and> (\<forall>x\<in>set (connected_clients s'). Delivered x (dumps net message) \<in> set effs)
           \<and> (connected_clients s' \<noteq> [] \<longrightarrow> Dumps message \<in> set effs)
           \<and> serialised effs = (if connected_clients s = [] then [] else [message])"
proof (cases "connected_clients s = []")
  case True
  then show ?thesis by (simp add: send_to_all_clients_def)
next
  case False
  show ?thesis
    unfolding send_to_all_clients_benign [OF assms False]
    using False by (simp add: serialised_Delivered)
qed

text \<open>
  Claim C6, amended. Among the registered clients exactly one, \<open>c\<close>, fails, and its send
  raises \<open>ConnectionClosed\<close>. Then \<open>send_to_all_clients\<close> returns without an exception,
  having serialised the message once and delivered the text to every other client; \<open>c\<close>
  is no longer registered and the others are, in their order (one client fewer when the
  list has no repetition); and a later broadcast whose sends to them succeed returns,
  keeps them registered and delivers its text to each of them.
\<close>

theorem send_to_all_clients_one_closed:
  assumes c: "c \<in> set (connected_clients s)"
      and closed: "send net c (dumps net message) = Inl (ConnectionClosed m)"
      and others: "\<forall>x\<in>set (connected_clients s). x \<noteq> c \<longrightarrow> send net x (dumps net message) = Inr ()"
      and later: "\<forall>x\<in>set (connected_clients s). x \<noteq> c \<longrightarrow> send net' x (dumps net' message') = Inr ()"
  shows "\<exists>s' effs. send_to_all_clients net message s = (Inr (), s', effs)
           \<and> serialised effs = [message]
           \<and> effs = Dumps message # map (\<lambda>x. Delivered x (dumps net message))
                                      (filter (\<lambda>x. x \<noteq> c) (connected_clients s))
           \<and> connected_clients s' = filter (\<lambda>x. x \<noteq> c) (connected_clients s)
           \<and> c \<notin> set (connected_clients s')
           \<and> set (connected_clients s') = set (connected_clients s) - {c}
           \<and> (distinct (connected_clients s) \<longrightarrow>
                length (connected_clients s') = length (connected_clients s) - 1)
           \<and> fst (send_to_all_clients net' message' s') = Inr ()
           \<and> connected_clients (fst (snd (send_to_all_clients net' message' s'))) = connected_clients s'
           \<and> (\<forall>x\<in>set (connected_clients s').
                 Delivered x (dumps net' message') \<in> set (snd (snd (send_to_all_clients net' message' s'))))"
proof -
  let ?cs = "connected_clients s"
  let ?str = "dumps net message"
  have ne: "?cs \<noteq> []" using c by auto
  have ben: "\<forall>x\<in>set ?cs. send net x ?str = Inr () \<or> (\<exists>m. send net x ?str = Inl (ConnectionClosed m))"
  proof
    fix x assume "x \<in> set ?cs"
    then show "send net x ?str = Inr () \<or> (\<exists>m. send net x ?str = Inl (ConnectionClosed m))"
      using closed others by (cases "x = c") auto
  qed
  have flt: "filter (\<lambda>x. send net x ?str = Inr ()) ?cs = filter (\<lambda>x. x \<noteq> c) ?cs"
    using closed others by (intro filter_cong) auto
  define s' where "s' = s\<lparr>connected_clients := filter (\<lambda>x. x \<noteq> c) ?cs\<rparr>"
  define effs where "effs = Dumps message # map (\<lambda>x. Delivered x ?str) (filter (\<lambda>x. x \<noteq> c) ?cs)"
  have run: "send_to_all_clients net message s = (Inr (), s', effs)"
    unfolding send_to_all_clients_benign [OF ben ne] flt s'_def effs_def by simp
  have cs': "connected_clients s' = filter (\<lambda>x. x \<noteq> c) ?cs" by (simp add: s'_def)
  have ser: "serialised effs = [message]" by (simp add: effs_def serialised_Delivered)
  have len: "distinct ?cs \<longrightarrow> length (connected_clients s') = length ?cs - 1"
  proof
    assume d: "distinct ?cs"
    have "filter (\<lambda>x. x \<noteq> c) ?cs = remove1 c ?cs"
    proof -
      have "filter (\<lambda>x. x \<noteq> c) ?cs = filter (\<lambda>x. c \<noteq> x) ?cs"
        by (intro filter_cong) auto
      then show ?thesis
        using d by (simp add: distinct_remove1_removeAll removeAll_filter_not_eq)
    qed
    then show "length (connected_clients s') = length ?cs - 1"
      using c by (simp add: cs' length_remove1)
  qed
  have ben': "\<forall>x\<in>set (connected_clients s').
                 send net' x (dumps net' message') = Inr ()
               \<or> (\<exists>m. send net' x (dumps net' message') = Inl (ConnectionClosed m))"
    using later by (simp add: cs')
  have all': "filter (\<lambda>x. send net' x (dumps net' message') = Inr ()) (connected_clients s') = connected_clients s'"
  proof -
    have "\<forall>x\<in>set (connected_clients s'). send net' x (dumps net' message') = Inr ()"
      using later by (simp add: cs')
    then show ?thesis by (simp add: filter_id_conv)
  qed
  from send_to_all_clients_summary [OF ben'] all'
  obtain s'' effs' where
    run': "send_to_all_clients net' message' s' = (Inr (), s'', effs')"
    and cs'': "connected_clients s'' = connected_clients s'"
    and del: "\<forall>x\<in>set (connected_clients s''). Delivered x (dumps net' message') \<in> set effs'"
    by auto
  show ?thesis
    using run ser cs' len run' cs'' del by (auto simp: effs_def)
qed


text \<open>
  Claim C6 speaks of a send that fails. The handler of \<open>send_to_all_clients\<close> names
  \<open>ConnectionClosed\<close> only: with clients 2 and 1 registered, the send to 2 succeeding and
  the send to 1 raising another exception, the exception leaves the method and client 1 is
  still registered.
\<close>

theorem send_to_all_clients_other_exception_counterexample:
  "send \<lparr>dumps = (\<lambda>m. ''{}''),
         send = (\<lambda>x str. if x = 1 then Inl (Exception ''invalid state'') else Inr ())\<rparr> 1 ''{}''
     = Inl (Exception ''invalid state'')
   \<and> send \<lparr>dumps = (\<lambda>m. ''{}''),
           send = (\<lambda>x str. if x = 1 then Inl (Exception ''invalid state'') else Inr ())\<rparr> 2 ''{}''
     = Inr ()
   \<and> send_to_all_clients
        \<lparr>dumps = (\<lambda>m. ''{}''),
         send = (\<lambda>x str. if x = 1 then Inl (Exception ''invalid state'') else Inr ())\<rparr>
        (Log_message ''INFO'' ''hello'' ''t0'')
        (DashboardServer\<lparr>connected_clients := [2, 1]\<rparr>)
     = (Inl (Exception ''invalid state''),
        DashboardServer\<lparr>connected_clients := [2, 1]\<rparr>,
        [Dumps (Log_message ''INFO'' ''hello'' ''t0''), Delivered 2 ''{}''])"
  by (simp add: send_to_all_clients_def)

theorem send_to_all_clients_one_closed_witness:
  "\<exists>s' effs. send_to_all_clients
        \<lparr>dumps = (\<lambda>m. ''{}''),
         send = (\<lambda>x str. if x = 1 then Inl (ConnectionClosed ''1006'') else Inr ())\<rparr>
        (Log_message ''INFO'' ''hello'' ''t0'')
        (DashboardServer\<lparr>connected_clients := [2, 1, 3]\<rparr>) = (Inr (), s', effs)
     \<and> connected_clients s' = [2, 3]
     \<and> effs = [Dumps (Log_message ''INFO'' ''hello'' ''t0''), Delivered 2 ''{}'', Delivered 3 ''{}'']"
proof -
  let ?net = "\<lparr>dumps = (\<lambda>m. ''{}''),
         send = (\<lambda>x str. if x = (1::nat) then Inl (ConnectionClosed ''1006'') else Inr ())\<rparr>"
  let ?s = "DashboardServer\<lparr>connected_clients := [2, 1, 3]\<rparr>"
  let ?m = "Log_message ''INFO'' ''hello'' ''t0''"
  have h1: "1 \<in> set (connected_clients ?s)" by simp
  have h2: "send ?net 1 (dumps ?net ?m) = Inl (ConnectionClosed ''1006'')" by simp
  have h3: "\<forall>x\<in>set (connected_clients ?s). x \<noteq> 1 \<longrightarrow> send ?net x (dumps ?net ?m) = Inr ()" by simp
  from send_to_all_clients_one_closed [OF h1 h2 h3 h3]
  obtain s' effs where
    r: "send_to_all_clients ?net ?m ?s = (Inr (), s', effs)"
    and e: "effs = Dumps ?m # map (\<lambda>x. Delivered x (dumps ?net ?m))
                                      (filter (\<lambda>x. x \<noteq> 1) (connected_clients ?s))"
    and c: "connected_clients s' = filter (\<lambda>x. x \<noteq> 1) (connected_clients ?s)"
    by blast
  have e': "effs = [Dumps ?m, Delivered 2 ''{}'', Delivered 3 ''{}'']"
    using e by simp
  have c': "connected_clients s' = [2, 3]"
    using c by simp
  show ?thesis using r e' c' by blast
qed

subsection \<open>Starting a pipeline\<close>

text \<open>Broadcasting writes to the list of clients only.\<close>

lemma fold_unregister_client_frame:
  "pipeline_status (fold unregister_client ds s) = pipeline_status s
   \<and> current_task (fold unregister_client ds s) = current_task s"
  by (induction ds arbitrary: s) (simp_all add: unregister_client_def)

lemma send_to_all_clients_frame:
  "pipeline_status (fst (snd (send_to_all_clients net message s))) = pipeline_status s
   \<and> current_task (fst (snd (send_to_all_clients net message s))) = current_task s"
  by (simp add: send_to_all_clients_def Let_def fold_unregister_client_frame
           split: prod.splits sum.splits)

text \<open>
  The broadcast in full, when every send to a registered client returns or raises
  \<open>ConnectionClosed\<close>.
\<close>

lemma send_to_all_clients_exact:
  assumes "\<forall>x\<in>set (connected_clients s).
             send net x (dumps net message) = Inr ()
           \<or> (\<exists>m. send net x (dumps net message) = Inl (ConnectionClosed m))"
  shows "send_to_all_clients net message s =
           (Inr (),
            s\<lparr>connected_clients :=
                 filter (\<lambda>x. send net x (dumps net message) = Inr ()) (connected_clients s)\<rparr>,
            (if connected_clients s = [] then []
             else Dumps message #
                    map (\<lambda>x. Delivered x (dumps net message))
                      (filter (\<lambda>x. send net x (dumps net message) = Inr ()) (connected_clients s))))"
proof (cases "connected_clients s = []")
  case True
  have "s\<lparr>connected_clients := []\<rparr> = s" using True by (cases s) simp
  then show ?thesis using True by (simp add: send_to_all_clients_def)
next
  case False
  show ?thesis
    unfolding send_to_all_clients_benign [OF assms False] using False by simp
qed

text \<open>
  Claim C7, amended. The message \<open>{"type": "start_pipeline", "task": task}\<close> is handled in
  any state whose \<open>pipeline_status\<close> has the five stage names among its keys. Whatever the
  sends do, the state the handler leaves has \<open>task\<close> as its current task and the waiting
  record, with progress and error \<open>None\<close>, at every key. When every send to a registered
  client returns or raises \<open>ConnectionClosed\<close>, the handler returns, and what it does is
  exactly this: the log line is serialised and delivered to the registered clients whose
  send succeeds (the informed ones); then, if one of them is left, the \<open>pipeline_start\<close>
  message for \<open>task\<close> is serialised once and delivered to the informed clients whose send
  succeeds, who are the clients registered afterwards. With nobody registered nothing is
  serialised.
\<close>

theorem start_pipeline_resets:
  assumes ty: "data ''type'' = Some ''start_pipeline''"
      and task: "data ''task'' = Some task"
      and keys: "set stage_names \<subseteq> dom (pipeline_status s)"
  shows "current_task (fst (snd (handle_client_message net clock websocket data s))) = task
       \<and> (\<forall>n\<in>set stage_names.
             pipeline_status (fst (snd (handle_client_message net clock websocket data s))) n
               = Some waiting)
       \<and> pipeline_status (fst (snd (handle_client_message net clock websocket data s)))
           = reset_pipeline_status (pipeline_status s)
       \<and> ((\<forall>x\<in>set (connected_clients s). \<forall>message.
              send net x (dumps net message) = Inr ()
            \<or> (\<exists>m. send net x (dumps net message) = Inl (ConnectionClosed m)))
          \<longrightarrow>
            (let log = Log_message ''INFO'' (''Starting pipeline for task: '' @ task) (clock 0);
                 start = Pipeline_start task (clock 1);
                 informed = filter (\<lambda>x. send net x (dumps net log) = Inr ()) (connected_clients s);
                 started = filter (\<lambda>x. send net x (dumps net start) = Inr ()) informed
             in handle_client_message net clock websocket data s =
                  (Inr (),
                   s\<lparr>current_task := task,
                     pipeline_status := reset_pipeline_status (pipeline_status s),
                     connected_clients := started\<rparr>,
                   (if connected_clients s = [] then []
                    else Dumps log # map (\<lambda>x. Delivered x (dumps net log)) informed)
                   @ (if informed = [] then []
                      else Dumps start # map (\<lambda>x. Delivered x (dumps net start)) started))))"
proof -
  define s2 where "s2 = s\<lparr>current_task := task,
                          pipeline_status := reset_pipeline_status (pipeline_status s)\<rparr>"
  define log where "log = Log_message ''INFO'' (''Starting pipeline for task: '' @ task) (clock 0)"
  define start where "start = Pipeline_start task (clock 1)"
  define r1 where "r1 = send_to_all_clients net log s2"
  define s3 where "s3 = fst (snd r1)"
  define r2 where "r2 = send_to_all_clients net start s3"
  have s2c: "current_task s2 = task" "pipeline_status s2 = reset_pipeline_status (pipeline_status s)"
            "connected_clients s2 = connected_clients s"
    by (simp_all add: s2_def)
  have f3: "pipeline_status s3 = pipeline_status s2" "current_task s3 = current_task s2"
    using send_to_all_clients_frame [of net log s2] by (simp_all add: s3_def r1_def)
  have f4: "pipeline_status (fst (snd r2)) = pipeline_status s3"
           "current_task (fst (snd r2)) = current_task s3"
    using send_to_all_clients_frame [of net start s3] by (simp_all add: r2_def)
  have run: "handle_client_message net clock websocket data s =
               (case r1 of
                  (Inl e, s3', effs) \<Rightarrow> (Inl e, s3', effs)
                | (Inr u, s3', effs) \<Rightarrow>
                    (case send_to_all_clients net (Pipeline_start (current_task s3') (clock 1)) s3' of
                       (r, s4, effs') \<Rightarrow> (r, s4, effs @ effs')))"
    using ty task
    by (simp add: handle_client_message_def Let_def add_log_def s2_def r1_def log_def)
  have final: "pipeline_status (fst (snd (handle_client_message net clock websocket data s)))
                 = reset_pipeline_status (pipeline_status s)
             \<and> current_task (fst (snd (handle_client_message net clock websocket data s))) = task"
  proof (cases r1)
    case (fields res s3' effs)
    have s3': "s3' = s3" using fields by (simp add: s3_def)
    show ?thesis
    proof (cases res)
      case (Inl e)
      then show ?thesis using run fields s3' f3 s2c by simp
    next
      case (Inr u)
      have t3: "current_task s3 = task" using f3 s2c by simp
      obtain r s4 effs' where r2f: "r2 = (r, s4, effs')" by (cases r2)
      then have "handle_client_message net clock websocket data s = (r, s4, effs @ effs')"
        using run fields Inr s3' t3 by (simp add: r2_def start_def)
      moreover have "pipeline_status s4 = pipeline_status s3" "current_task s4 = current_task s3"
        using f4 r2f by simp_all
      ultimately show ?thesis using f3 s2c by simp
    qed
  qed
  have five: "\<forall>n\<in>set stage_names. reset_pipeline_status (pipeline_status s) n = Some waiting"
    using keys by (auto simp: reset_pipeline_status_def split: option.splits)
  have exact: "(\<forall>x\<in>set (connected_clients s). \<forall>message.
              send net x (dumps net message) = Inr ()
            \<or> (\<exists>m. send net x (dumps net message) = Inl (ConnectionClosed m)))
          \<longrightarrow>
            (let log = Log_message ''INFO'' (''Starting pipeline for task: '' @ task) (clock 0);
                 start = Pipeline_start task (clock 1);
                 informed = filter (\<lambda>x. send net x (dumps net log) = Inr ()) (connected_clients s);
                 started = filter (\<lambda>x. send net x (dumps net start) = Inr ()) informed
             in handle_client_message net clock websocket data s =
                  (Inr (),
                   s\<lparr>current_task := task,
                     pipeline_status := reset_pipeline_status (pipeline_status s),
                     connected_clients := started\<rparr>,
                   (if connected_clients s = [] then []
                    else Dumps log # map (\<lambda>x. Delivered x (dumps net log)) informed)
                   @ (if informed = [] then []
                      else Dumps start # map (\<lambda>x. Delivered x (dumps net start)) started)))"
  proof
    assume ben: "\<forall>x\<in>set (connected_clients s). \<forall>message.
              send net x (dumps net message) = Inr ()
            \<or> (\<exists>m. send net x (dumps net message) = Inl (ConnectionClosed m))"
    define informed where
      "informed = filter (\<lambda>x. send net x (dumps net log) = Inr ()) (connected_clients s)"
    define started where
      "started = filter (\<lambda>x. send net x (dumps net start) = Inr ()) informed"
    have b1: "\<forall>x\<in>set (connected_clients s2).
                send net x (dumps net log) = Inr ()
              \<or> (\<exists>m. send net x (dumps net log) = Inl (ConnectionClosed m))"
      using ben s2c by simp
    have e1: "r1 = (Inr (), s2\<lparr>connected_clients := informed\<rparr>,
                    (if connected_clients s = [] then []
                     else Dumps log # map (\<lambda>x. Delivered x (dumps net log)) informed))"
      unfolding r1_def send_to_all_clients_exact [OF b1] by (simp add: informed_def s2c)
    have s3e: "s3 = s2\<lparr>connected_clients := informed\<rparr>" using e1 by (simp add: s3_def)
    have b2: "\<forall>x\<in>set (connected_clients s3).
                send net x (dumps net start) = Inr ()
              \<or> (\<exists>m. send net x (dumps net start) = Inl (ConnectionClosed m))"
      using ben by (simp add: s3e informed_def)
    have e2: "r2 = (Inr (), s3\<lparr>connected_clients := started\<rparr>,
                    (if informed = [] then []
                     else Dumps start # map (\<lambda>x. Delivered x (dumps net start)) started))"
      unfolding r2_def send_to_all_clients_exact [OF b2] by (simp add: started_def s3e)
    have t3: "current_task s3 = task" using f3 s2c by simp
    have "handle_client_message net clock websocket data s =
            (Inr (), s3\<lparr>connected_clients := started\<rparr>,
             (if connected_clients s = [] then []
              else Dumps log # map (\<lambda>x. Delivered x (dumps net log)) informed)
             @ (if informed = [] then []
                else Dumps start # map (\<lambda>x. Delivered x (dumps net start)) started))"
      using run e1 e2 t3 s3e by (simp add: r2_def start_def s3_def)
    moreover have "s3\<lparr>connected_clients := started\<rparr> =
                     s\<lparr>current_task := task,
                       pipeline_status := reset_pipeline_status (pipeline_status s),
                       connected_clients := started\<rparr>"
      by (simp add: s3e s2_def)
    ultimately show "(let log = Log_message ''INFO'' (''Starting pipeline for task: '' @ task) (clock 0);
                 start = Pipeline_start task (clock 1);
                 informed = filter (\<lambda>x. send net x (dumps net log) = Inr ()) (connected_clients s);
                 started = filter (\<lambda>x. send net x (dumps net start) = Inr ()) informed
             in handle_client_message net clock websocket data s =
                  (Inr (),
                   s\<lparr>current_task := task,
                     pipeline_status := reset_pipeline_status (pipeline_status s),
                     connected_clients := started\<rparr>,
                   (if connected_clients s = [] then []
                    else Dumps log # map (\<lambda>x. Delivered x (dumps net log)) informed)
                   @ (if informed = [] then []
                      else Dumps start # map (\<lambda>x. Delivered x (dumps net start)) started)))"
      by (simp add: Let_def informed_def started_def log_def start_def)
  qed
  show ?thesis
    using final five exact by simp
qed


text \<open>
  Claim C7 has the handler emit a \<open>pipeline_start\<close> event from every prior state. The
  log line is broadcast first, and \<open>send_to_all_clients\<close> absorbs \<open>ConnectionClosed\<close>
  only: with one client whose send raises another exception, the handler is left by that
  exception after the log line; the task is set and the records are reset, and no
  \<open>pipeline_start\<close> message is serialised.
\<close>

theorem start_pipeline_other_exception_counterexample:
  "handle_client_message
      \<lparr>dumps = (\<lambda>m. case m of Pipeline_start t ts \<Rightarrow> ''start '' @ t | _ \<Rightarrow> ''other''),
       send = (\<lambda>x str. Inl (Exception ''invalid state''))\<rparr>
      (\<lambda>i. ''now'') 7 [''type'' \<mapsto> ''start_pipeline'', ''task'' \<mapsto> ''T-2'']
      (DashboardServer\<lparr>connected_clients := [7]\<rparr>)
   = (Inl (Exception ''invalid state''),
      DashboardServer\<lparr>connected_clients := [7], current_task := ''T-2'',
                      pipeline_status := reset_pipeline_status initial_pipeline_status\<rparr>,
      [Dumps (Log_message ''INFO'' ''Starting pipeline for task: T-2'' ''now'')])
   \<and> serialised [Dumps (Log_message ''INFO'' ''Starting pipeline for task: T-2'' ''now'')]
       = [Log_message ''INFO'' ''Starting pipeline for task: T-2'' ''now'']"
  by (simp add: handle_client_message_def Let_def add_log_def send_to_all_clients_def
                DashboardServer_def)

theorem start_pipeline_resets_witness:
  "handle_client_message
        \<lparr>dumps = (\<lambda>m. case m of Pipeline_start t ts \<Rightarrow> ''start '' @ t | _ \<Rightarrow> ''other''),
         send = (\<lambda>x str. if x = 8 then Inl (ConnectionClosed ''1006'') else Inr ())\<rparr>
        (\<lambda>i. ''now'') 7 [''type'' \<mapsto> ''start_pipeline'', ''task'' \<mapsto> ''T-2'']
        (DashboardServer\<lparr>connected_clients := [7, 8],
           pipeline_status := initial_pipeline_status
             (''planner'' \<mapsto> \<lparr>status = ''completed'', progress = Some ''100%'', error = None\<rparr>,
              ''coder'' \<mapsto> \<lparr>status = ''failed'', progress = Some ''0%'', error = Some ''boom''\<rparr>)\<rparr>)
   = (Inr (),
      DashboardServer\<lparr>connected_clients := [7], current_task := ''T-2'',
                      pipeline_status := initial_pipeline_status\<rparr>,
      [Dumps (Log_message ''INFO'' ''Starting pipeline for task: T-2'' ''now''),
       Delivered 7 ''other'',
       Dumps (Pipeline_start ''T-2'' ''now''),
       Delivered 7 ''start T-2''])"
proof -
  let ?net = "\<lparr>dumps = (\<lambda>m. case m of Pipeline_start t ts \<Rightarrow> ''start '' @ t | _ \<Rightarrow> ''other''),
         send = (\<lambda>(x::nat) (str::string). if x = 8 then Inl (ConnectionClosed ''1006'') else (Inr () :: outcome))\<rparr>"
  let ?data = "[''type'' \<mapsto> ''start_pipeline'', ''task'' \<mapsto> ''T-2'']"
  let ?ps = "initial_pipeline_status
             (''planner'' \<mapsto> \<lparr>status = ''completed'', progress = Some ''100%'', error = None\<rparr>,
              ''coder'' \<mapsto> \<lparr>status = ''failed'', progress = Some ''0%'', error = Some ''boom''\<rparr>)"
  let ?s = "DashboardServer\<lparr>connected_clients := [7, 8], pipeline_status := ?ps\<rparr>"
  have h1: "?data ''type'' = Some ''start_pipeline''" by simp
  have h2: "?data ''task'' = Some ''T-2''" by simp
  have h3: "set stage_names \<subseteq> dom (pipeline_status ?s)"
    by (simp add: stage_names_def initial_pipeline_status_def)
  have h4: "\<forall>x\<in>set (connected_clients ?s). \<forall>message.
              send ?net x (dumps ?net message) = Inr ()
            \<or> (\<exists>m. send ?net x (dumps ?net message) = Inl (ConnectionClosed m))"
    by simp
  have reset: "reset_pipeline_status ?ps = initial_pipeline_status"
    by (rule ext) (simp add: reset_pipeline_status_def initial_pipeline_status_def)
  note res = start_pipeline_resets [OF h1 h2 h3, of ?net "\<lambda>i. ''now''" 7, THEN conjunct2,
         THEN conjunct2, THEN conjunct2, THEN mp, OF h4, unfolded Let_def]
  show ?thesis
    unfolding res by (simp add: reset DashboardServer_def)
qed


section \<open>Properties of the configuration merge\<close>

lemma map_add_self: "m ++ m = m"
  by (simp add: map_add_def fun_eq_iff split: option.splits)

text \<open>
  The merged dictionary, key by key, for defaults whose section names are distinct (they
  are the keys of a dictionary).
\<close>

lemma merge_sections_lookup:
  assumes "distinct (map fst D)"
  shows "merge_sections D cfg merged k =
           (case map_of D k of
              Some defaults \<Rightarrow>
                Some (JDict (case cfg k of Some (JDict val) \<Rightarrow> defaults ++ val | _ \<Rightarrow> defaults))
            | None \<Rightarrow> merged k)"
  using assms
proof (induction D arbitrary: merged)
  case Nil
  then show ?case by simp
next
  case (Cons a D)
  obtain key defaults where a: "a = (key, defaults)" by (cases a)
  from Cons.prems a have d: "distinct (map fst D)" and nk: "key \<notin> fst ` set D" by auto
  have none: "map_of D key = None" using nk by (simp add: map_of_eq_None_iff)
  show ?case
  proof (cases "k = key")
    case True
    show ?thesis
      using Cons.IH [OF d] a True none
      by (simp add: Let_def map_add_self split: option.splits json.splits)
  next
    case False
    show ?thesis
      using Cons.IH [OF d] a False
      by (simp add: Let_def split: option.splits json.splits)
  qed
qed

lemma merge_defaults_lookup:
  assumes "distinct (map fst D)"
  shows "merge_defaults D cfg k =
           (case map_of D k of
              Some defaults \<Rightarrow>
                Some (JDict (case cfg k of Some (JDict val) \<Rightarrow> defaults ++ val | _ \<Rightarrow> defaults))
            | None \<Rightarrow> cfg k)"
  by (simp add: merge_defaults_def merge_sections_lookup [OF assms] split: option.splits)

text \<open>
  Claim C9, amended. For every input dictionary \<open>cfg\<close>: a default section whose value in
  \<open>cfg\<close> is a dictionary is merged key by key, every key the input gives keeping the
  given value (known or not) and every other key having its default; a default section
  that \<open>cfg\<close> lacks, or gives as anything but a dictionary, is the section's defaults; and
  every other top-level key of \<open>cfg\<close> is in the result with its value, keys that are in
  neither being absent.
\<close>

theorem merge_defaults_spec:
  assumes "distinct (map fst D)"
  shows "(\<forall>key defaults. map_of D key = Some defaults \<longrightarrow>
            (\<forall>val. cfg key = Some (JDict val) \<longrightarrow>
               (\<exists>sect. merge_defaults D cfg key = Some (JDict sect)
                  \<and> (\<forall>k v. val k = Some v \<longrightarrow> sect k = Some v)
                  \<and> (\<forall>k. val k = None \<longrightarrow> sect k = defaults k)))
          \<and> ((\<forall>val. cfg key \<noteq> Some (JDict val)) \<longrightarrow>
               merge_defaults D cfg key = Some (JDict defaults)))
       \<and> (\<forall>key. map_of D key = None \<longrightarrow> merge_defaults D cfg key = cfg key)"
proof (intro conjI allI impI)
  fix key defaults val
  assume "map_of D key = Some defaults" "cfg key = Some (JDict val)"
  then have "merge_defaults D cfg key = Some (JDict (defaults ++ val))"
    by (simp add: merge_defaults_lookup [OF assms])
  moreover have "\<forall>k v. val k = Some v \<longrightarrow> (defaults ++ val) k = Some v"
    by (simp add: map_add_def)
  moreover have "\<forall>k. val k = None \<longrightarrow> (defaults ++ val) k = defaults k"
    by (simp add: map_add_def)
  ultimately show "\<exists>sect. merge_defaults D cfg key = Some (JDict sect)
                  \<and> (\<forall>k v. val k = Some v \<longrightarrow> sect k = Some v)
                  \<and> (\<forall>k. val k = None \<longrightarrow> sect k = defaults k)"
    by blast
next
  fix key defaults
  assume "map_of D key = Some defaults" "\<forall>val. cfg key \<noteq> Some (JDict val)"
  then show "merge_defaults D cfg key = Some (JDict defaults)"
    by (simp add: merge_defaults_lookup [OF assms] split: option.splits json.splits)
next
  fix key
  assume "map_of D key = None"
  then show "merge_defaults D cfg key = cfg key"
    by (simp add: merge_defaults_lookup [OF assms])
qed

lemma ci_cd_agent_keys: "distinct (map fst ci_cd_agent_DEFAULT_CONFIG)"
  by (simp add: ci_cd_agent_DEFAULT_CONFIG_def)

lemma git_agent_keys: "distinct (map fst git_agent_DEFAULT_CONFIG)"
  by (simp add: git_agent_DEFAULT_CONFIG_def)

text \<open>
  Claim C9 lets every key of the input keep its value. \<open>merge_defaults\<close> tests
  \<open>isinstance(val, dict)\<close>: the input \<open>{"logging": false}\<close> has the key \<open>logging\<close>, and
  the merged configuration holds the default logging section in its place, in both
  modules.
\<close>

theorem merge_defaults_non_dict_counterexample:
  "[''logging'' \<mapsto> JBool False] ''logging'' = Some (JBool False)
   \<and> merge_defaults ci_cd_agent_DEFAULT_CONFIG [''logging'' \<mapsto> JBool False] ''logging''
       = Some (JDict [''log_file'' \<mapsto> JString ''logs/ci-cd-automation.log''])
   \<and> merge_defaults git_agent_DEFAULT_CONFIG [''logging'' \<mapsto> JBool False] ''logging''
       = Some (JDict [''log_file'' \<mapsto> JString ''logs/git-automation.log''])"
  by (simp add: merge_defaults_def ci_cd_agent_DEFAULT_CONFIG_def git_agent_DEFAULT_CONFIG_def)


theorem merge_defaults_spec_witness:
  "(\<exists>sect.
      merge_defaults ci_cd_agent_DEFAULT_CONFIG
        [''ci_cd'' \<mapsto> JDict [''deploy_timeout'' \<mapsto> JInt 60, ''region'' \<mapsto> JString ''eu''],
         ''owner'' \<mapsto> JString ''ops''] ''ci_cd'' = Some (JDict sect)
      \<and> sect ''deploy_timeout'' = Some (JInt 60)
      \<and> sect ''region'' = Some (JString ''eu'')
      \<and> sect ''rollback_on_failure'' = Some (JBool True))
   \<and> merge_defaults ci_cd_agent_DEFAULT_CONFIG
        [''ci_cd'' \<mapsto> JDict [''deploy_timeout'' \<mapsto> JInt 60, ''region'' \<mapsto> JString ''eu''],
         ''owner'' \<mapsto> JString ''ops''] ''git'' = Some (JDict git_section)
   \<and> merge_defaults ci_cd_agent_DEFAULT_CONFIG
        [''ci_cd'' \<mapsto> JDict [''deploy_timeout'' \<mapsto> JInt 60, ''region'' \<mapsto> JString ''eu''],
         ''owner'' \<mapsto> JString ''ops''] ''owner'' = Some (JString ''ops'')"
proof -
  let ?val = "[''deploy_timeout'' \<mapsto> JInt 60, ''region'' \<mapsto> JString ''eu'']"
  let ?cfg = "[''ci_cd'' \<mapsto> JDict ?val, ''owner'' \<mapsto> JString ''ops'']"
  note spec = merge_defaults_spec [OF ci_cd_agent_keys, of ?cfg]
  have m1: "map_of ci_cd_agent_DEFAULT_CONFIG ''ci_cd'' = Some ci_cd_section"
    by (simp add: ci_cd_agent_DEFAULT_CONFIG_def)
  have m2: "map_of ci_cd_agent_DEFAULT_CONFIG ''git'' = Some git_section"
    by (simp add: ci_cd_agent_DEFAULT_CONFIG_def)
  have m3: "map_of ci_cd_agent_DEFAULT_CONFIG ''owner'' = None"
    by (simp add: ci_cd_agent_DEFAULT_CONFIG_def)
  have c1: "?cfg ''ci_cd'' = Some (JDict ?val)" by simp
  have c2: "\<forall>val. ?cfg ''git'' \<noteq> Some (JDict val)" by simp
  have "\<exists>sect. merge_defaults ci_cd_agent_DEFAULT_CONFIG ?cfg ''ci_cd'' = Some (JDict sect)
                  \<and> (\<forall>k v. ?val k = Some v \<longrightarrow> sect k = Some v)
                  \<and> (\<forall>k. ?val k = None \<longrightarrow> sect k = ci_cd_section k)"
    using spec [THEN conjunct1, rule_format, OF m1, THEN conjunct1, rule_format, OF c1] .
  then obtain sect where
    s: "merge_defaults ci_cd_agent_DEFAULT_CONFIG ?cfg ''ci_cd'' = Some (JDict sect)"
    and given: "\<forall>k v. ?val k = Some v \<longrightarrow> sect k = Some v"
    and dflt: "\<forall>k. ?val k = None \<longrightarrow> sect k = ci_cd_section k"
    by (elim exE conjE)
  have v1: "?val ''deploy_timeout'' = Some (JInt 60)" by simp
  have v2: "?val ''region'' = Some (JString ''eu'')" by simp
  have s1: "sect ''deploy_timeout'' = Some (JInt 60)"
    using given [rule_format, OF v1] .
  have s2: "sect ''region'' = Some (JString ''eu'')"
    using given [rule_format, OF v2] .
  have v3: "?val ''rollback_on_failure'' = None" by simp
  have "sect ''rollback_on_failure'' = ci_cd_section ''rollback_on_failure''"
    using dflt [rule_format, OF v3] .
  then have s3: "sect ''rollback_on_failure'' = Some (JBool True)"
    by (simp add: ci_cd_section_def)
  have g: "merge_defaults ci_cd_agent_DEFAULT_CONFIG ?cfg ''git'' = Some (JDict git_section)"
    using spec [THEN conjunct1, rule_format, OF m2, THEN conjunct2, rule_format, OF c2 [rule_format]] .
  have "merge_defaults ci_cd_agent_DEFAULT_CONFIG ?cfg ''owner'' = ?cfg ''owner''"
    using spec [THEN conjunct2, rule_format, OF m3] .
  then have ow: "merge_defaults ci_cd_agent_DEFAULT_CONFIG ?cfg ''owner'' = Some (JString ''ops'')"
    by simp
  show ?thesis
  proof (intro conjI exI)
    show "merge_defaults ci_cd_agent_DEFAULT_CONFIG ?cfg ''ci_cd'' = Some (JDict sect)" by (rule s)
  qed (rule s1 s2 s3 g ow)+
qed


section \<open>Properties of the production deployment\<close>

text \<open>
  A configuration that \<open>_load_config\<close> returned has the keys that
  \<open>trigger_production_deploy\<close> reads.
\<close>

lemma load_config_sections:
  assumes "load_config ci_cd_agent_DEFAULT_CONFIG file = Inr config"
  shows "(\<exists>a. config_get config ''ci_cd'' ''auto_deploy_production'' = Inr a)
       \<and> (\<exists>v. config_get config ''security'' ''require_manual_approval'' = Inr v)
       \<and> (\<exists>w. config_get config ''ci_cd'' ''github_actions_workflow'' = Inr w)"
proof -
  have dflt: "(\<exists>a. config_get (default_config ci_cd_agent_DEFAULT_CONFIG) ''ci_cd'' ''auto_deploy_production'' = Inr a)
       \<and> (\<exists>v. config_get (default_config ci_cd_agent_DEFAULT_CONFIG) ''security'' ''require_manual_approval'' = Inr v)
       \<and> (\<exists>w. config_get (default_config ci_cd_agent_DEFAULT_CONFIG) ''ci_cd'' ''github_actions_workflow'' = Inr w)"
    by (simp add: default_config_def ci_cd_agent_DEFAULT_CONFIG_def config_get_def ci_cd_section_def)
  have mrg: "\<And>cfg. (\<exists>a. config_get (merge_defaults ci_cd_agent_DEFAULT_CONFIG cfg) ''ci_cd'' ''auto_deploy_production'' = Inr a)
       \<and> (\<exists>v. config_get (merge_defaults ci_cd_agent_DEFAULT_CONFIG cfg) ''security'' ''require_manual_approval'' = Inr v)
       \<and> (\<exists>w. config_get (merge_defaults ci_cd_agent_DEFAULT_CONFIG cfg) ''ci_cd'' ''github_actions_workflow'' = Inr w)"
  proof -
    fix cfg
    have m1: "map_of ci_cd_agent_DEFAULT_CONFIG ''ci_cd'' = Some ci_cd_section"
      by (simp add: ci_cd_agent_DEFAULT_CONFIG_def)
    have m2: "\<exists>d. map_of ci_cd_agent_DEFAULT_CONFIG ''security'' = Some d
                 \<and> d ''require_manual_approval'' = Some (JBool True)"
      by (simp add: ci_cd_agent_DEFAULT_CONFIG_def)
    have d1: "ci_cd_section ''auto_deploy_production'' = Some (JBool False)"
      by (simp add: ci_cd_section_def)
    have d2: "ci_cd_section ''github_actions_workflow'' = Some (JString ''maestro-automation.yml'')"
      by (simp add: ci_cd_section_def)
    show "(\<exists>a. config_get (merge_defaults ci_cd_agent_DEFAULT_CONFIG cfg) ''ci_cd'' ''auto_deploy_production'' = Inr a)
       \<and> (\<exists>v. config_get (merge_defaults ci_cd_agent_DEFAULT_CONFIG cfg) ''security'' ''require_manual_approval'' = Inr v)
       \<and> (\<exists>w. config_get (merge_defaults ci_cd_agent_DEFAULT_CONFIG cfg) ''ci_cd'' ''github_actions_workflow'' = Inr w)"
      using m1 m2 d1 d2
      by (auto simp: config_get_def merge_defaults_lookup [OF ci_cd_agent_keys] map_add_def
               split: option.splits json.splits)
  qed
  show ?thesis
    using assms dflt mrg
    by (auto simp: load_config_def split: sum.splits json.splits py_exception.splits)
qed

lemma trigger_production_deploy_short_circuit:
  assumes "config_get config ''ci_cd'' ''auto_deploy_production'' = Inr a"
      and "config_get config ''security'' ''require_manual_approval'' = Inr v"
      and "truthy v"
  shows "trigger_production_deploy run config task_id = (True, [])"
  using assms by (simp add: trigger_production_deploy_def trigger_production_deploy_try_def)

text \<open>
  The two methods in terms of what the processes answer, when they go past their gates.
\<close>

lemma trigger_production_deploy_proceeds:
  assumes "config_get config ''ci_cd'' ''auto_deploy_production'' = Inr a"
      and "config_get config ''security'' ''require_manual_approval'' = Inr v"
      and "\<not> truthy v"
      and "config_get config ''ci_cd'' ''github_actions_workflow'' = Inr workflow"
  shows "trigger_production_deploy run config task_id =
           (case run [''gh'', ''--version''] of
              Inl e \<Rightarrow>
                (case e of
                   FileNotFoundError m \<Rightarrow> (True, [[''gh'', ''--version'']])
                 | _ \<Rightarrow> (False, [[''gh'', ''--version'']]))
            | Inr (returncode, err) \<Rightarrow>
                if returncode \<noteq> 0 then (True, [[''gh'', ''--version'']])
                else
                  (case workflow of
                     JString w \<Rightarrow>
                       (case run (workflow_argv w task_id ''deploy-production'') of
                          Inl e \<Rightarrow>
                            (False, [[''gh'', ''--version''],
                                     workflow_argv w task_id ''deploy-production''])
                        | Inr (returncode', err') \<Rightarrow>
                            (returncode' = 0,
                             [[''gh'', ''--version''],
                              workflow_argv w task_id ''deploy-production'']))
                   | _ \<Rightarrow> (False, [[''gh'', ''--version'']])))"
  using assms
  by (simp add: trigger_production_deploy_def trigger_production_deploy_try_def
                check_github_cli_def run_workflow_def
           split: sum.splits prod.splits py_exception.splits json.splits)

lemma deploy_staging_proceeds:
  assumes "config_get config ''ci_cd'' ''auto_deploy_staging'' = Inr st"
      and "truthy st"
      and "config_get config ''ci_cd'' ''github_actions_workflow'' = Inr workflow"
  shows "deploy_staging run config task_id branch_name =
           (case run [''gh'', ''--version''] of
              Inl e \<Rightarrow> (True, [[''gh'', ''--version'']])
            | Inr (returncode, err) \<Rightarrow>
                if returncode \<noteq> 0 then (True, [[''gh'', ''--version'']])
                else
                  (case workflow of
                     JString w \<Rightarrow>
                       (case run (workflow_argv w task_id ''deploy-staging'') of
                          Inl e \<Rightarrow>
                            (True, [[''gh'', ''--version''],
                                    workflow_argv w task_id ''deploy-staging''])
                        | Inr (returncode', err') \<Rightarrow>
                            (returncode' = 0,
                             [[''gh'', ''--version''],
                              workflow_argv w task_id ''deploy-staging'']))
                   | _ \<Rightarrow> (True, [[''gh'', ''--version'']])))"
  using assms
  by (simp add: deploy_staging_def deploy_staging_try_def
                check_github_cli_def run_workflow_def
           split: sum.splits prod.splits py_exception.splits json.splits)


text \<open>
  Claim C8 has the method proceed like a staging deploy when approval is not required.
  With approval switched off, staging enabled, and \<open>gh\<close> present but not startable (the
  process call raises), the production deploy returns \<open>False\<close> and the staging deploy
  returns \<open>True\<close>: the handler of \<open>deploy_staging\<close> is tolerant, this one is not.
\<close>

theorem trigger_production_deploy_vs_staging_counterexample:
  "config_get
      (merge_defaults ci_cd_agent_DEFAULT_CONFIG
         [''security'' \<mapsto> JDict [''require_manual_approval'' \<mapsto> JBool False]])
      ''security'' ''require_manual_approval'' = Inr (JBool False)
   \<and> config_get
      (merge_defaults ci_cd_agent_DEFAULT_CONFIG
         [''security'' \<mapsto> JDict [''require_manual_approval'' \<mapsto> JBool False]])
      ''ci_cd'' ''auto_deploy_staging'' = Inr (JBool True)
   \<and> trigger_production_deploy (\<lambda>argv. Inl (Exception ''[Errno 13] Permission denied''))
      (merge_defaults ci_cd_agent_DEFAULT_CONFIG
         [''security'' \<mapsto> JDict [''require_manual_approval'' \<mapsto> JBool False]])
      ''T-1'' = (False, [[''gh'', ''--version'']])
   \<and> deploy_staging (\<lambda>argv. Inl (Exception ''[Errno 13] Permission denied''))
      (merge_defaults ci_cd_agent_DEFAULT_CONFIG
         [''security'' \<mapsto> JDict [''require_manual_approval'' \<mapsto> JBool False]])
      ''T-1'' ''feature/T-1'' = (True, [[''gh'', ''--version'']])"
proof -
  let ?config = "merge_defaults ci_cd_agent_DEFAULT_CONFIG
         [''security'' \<mapsto> JDict [''require_manual_approval'' \<mapsto> JBool False]]"
  have a: "config_get ?config ''ci_cd'' ''auto_deploy_production'' = Inr (JBool False)"
    unfolding config_get_def merge_defaults_lookup [OF ci_cd_agent_keys]
    by (simp add: ci_cd_agent_DEFAULT_CONFIG_def ci_cd_section_def)
  have v: "config_get ?config ''security'' ''require_manual_approval'' = Inr (JBool False)"
    unfolding config_get_def merge_defaults_lookup [OF ci_cd_agent_keys]
    by (simp add: ci_cd_agent_DEFAULT_CONFIG_def)
  have st: "config_get ?config ''ci_cd'' ''auto_deploy_staging'' = Inr (JBool True)"
    unfolding config_get_def merge_defaults_lookup [OF ci_cd_agent_keys]
    by (simp add: ci_cd_agent_DEFAULT_CONFIG_def ci_cd_section_def)
  have p: "trigger_production_deploy (\<lambda>argv. Inl (Exception ''[Errno 13] Permission denied''))
             ?config ''T-1'' = (False, [[''gh'', ''--version'']])"
    using a v
    by (simp add: trigger_production_deploy_def trigger_production_deploy_try_def
                  check_github_cli_def)
  have s: "deploy_staging (\<lambda>argv. Inl (Exception ''[Errno 13] Permission denied''))
             ?config ''T-1'' ''feature/T-1'' = (True, [[''gh'', ''--version'']])"
    using st
    by (simp add: deploy_staging_def deploy_staging_try_def check_github_cli_def)
  show ?thesis using v st p s by simp
qed

text \<open>
  Claim C8, amended. For every configuration that \<open>_load_config\<close> of the CI/CD agent
  returns: when \<open>security.require_manual_approval\<close> is true, \<open>trigger_production_deploy\<close>
  returns \<open>True\<close> and runs no process, and so it does on the default configuration. When
  it is false the method proceeds, whatever \<open>auto_deploy_production\<close> says: it runs
  \<open>gh --version\<close>; if \<open>gh\<close> is not found or exits with an error it returns \<open>True\<close>
  and nothing is deployed; otherwise it runs the workflow with \<open>action=deploy-production\<close>
  and returns \<open>True\<close> exactly when that exits with 0; an exception on the way makes it
  return \<open>False\<close>. These are the steps of \<open>deploy_staging\<close> when staging is enabled, with
  its own action, except that \<open>deploy_staging\<close> returns \<open>True\<close> for an exception.
\<close>

theorem trigger_production_deploy_manual_approval:
  assumes loaded: "load_config ci_cd_agent_DEFAULT_CONFIG file = Inr config"
  shows "(\<forall>v. config_get config ''security'' ''require_manual_approval'' = Inr v \<and> truthy v \<longrightarrow>
            trigger_production_deploy run config task_id = (True, []))
       \<and> trigger_production_deploy run (default_config ci_cd_agent_DEFAULT_CONFIG) task_id = (True, [])
       \<and> (\<exists>v workflow.
            config_get config ''security'' ''require_manual_approval'' = Inr v
          \<and> config_get config ''ci_cd'' ''github_actions_workflow'' = Inr workflow
          \<and> (\<not> truthy v \<longrightarrow>
               trigger_production_deploy run config task_id =
                 (case run [''gh'', ''--version''] of
                    Inl e \<Rightarrow>
                      (case e of
                         FileNotFoundError m \<Rightarrow> (True, [[''gh'', ''--version'']])
                       | _ \<Rightarrow> (False, [[''gh'', ''--version'']]))
                  | Inr (returncode, err) \<Rightarrow>
                      if returncode \<noteq> 0 then (True, [[''gh'', ''--version'']])
                      else
                        (case workflow of
                           JString w \<Rightarrow>
                             (case run (workflow_argv w task_id ''deploy-production'') of
                                Inl e \<Rightarrow>
                                  (False, [[''gh'', ''--version''],
                                           workflow_argv w task_id ''deploy-production''])
                              | Inr (returncode', err') \<Rightarrow>
                                  (returncode' = 0,
                                   [[''gh'', ''--version''],
                                    workflow_argv w task_id ''deploy-production'']))
                         | _ \<Rightarrow> (False, [[''gh'', ''--version'']]))))
          \<and> (\<forall>st. config_get config ''ci_cd'' ''auto_deploy_staging'' = Inr st \<and> truthy st \<longrightarrow>
               deploy_staging run config task_id branch_name =
                 (case run [''gh'', ''--version''] of
                    Inl e \<Rightarrow> (True, [[''gh'', ''--version'']])
                  | Inr (returncode, err) \<Rightarrow>
                      if returncode \<noteq> 0 then (True, [[''gh'', ''--version'']])
                      else
                        (case workflow of
                           JString w \<Rightarrow>
                             (case run (workflow_argv w task_id ''deploy-staging'') of
                                Inl e \<Rightarrow>
                                  (True, [[''gh'', ''--version''],
                                          workflow_argv w task_id ''deploy-staging''])
                              | Inr (returncode', err') \<Rightarrow>
                                  (returncode' = 0,
                                   [[''gh'', ''--version''],
                                    workflow_argv w task_id ''deploy-staging'']))
                         | _ \<Rightarrow> (True, [[''gh'', ''--version'']])))))"
proof -
  from load_config_sections [OF loaded] obtain a v workflow where
    a: "config_get config ''ci_cd'' ''auto_deploy_production'' = Inr a"
    and v: "config_get config ''security'' ''require_manual_approval'' = Inr v"
    and w: "config_get config ''ci_cd'' ''github_actions_workflow'' = Inr workflow"
    by blast
  have 1: "\<forall>v. config_get config ''security'' ''require_manual_approval'' = Inr v \<and> truthy v \<longrightarrow>
            trigger_production_deploy run config task_id = (True, [])"
    using trigger_production_deploy_short_circuit [OF a] by blast
  have 2: "trigger_production_deploy run (default_config ci_cd_agent_DEFAULT_CONFIG) task_id = (True, [])"
    by (rule trigger_production_deploy_short_circuit [where a = "JBool False" and v = "JBool True"])
       (simp_all add: default_config_def ci_cd_agent_DEFAULT_CONFIG_def config_get_def ci_cd_section_def)
  note 3 = trigger_production_deploy_proceeds [OF a v _ w, of run task_id]
  note 4 = deploy_staging_proceeds [OF _ _ w, of _ run task_id branch_name]
  show ?thesis
    apply (intro conjI)
      apply (rule 1)
     apply (rule 2)
    apply (rule exI [of _ v])
    apply (rule exI [of _ workflow])
    apply (intro conjI impI allI)
       apply (rule v)
      apply (rule w)
     apply (erule 3)
    apply (erule conjE)
    apply (erule (1) 4)
    done
qed

theorem trigger_production_deploy_manual_approval_witness:
  "trigger_production_deploy (\<lambda>argv. Inr (0, ''''))
      (merge_defaults ci_cd_agent_DEFAULT_CONFIG [''ci_cd'' \<mapsto> JDict [''deploy_timeout'' \<mapsto> JInt 60]])
      ''T-1'' = (True, [])
   \<and> trigger_production_deploy (\<lambda>argv. Inr (if argv = [''gh'', ''--version''] then 0 else 1, ''''))
      (merge_defaults ci_cd_agent_DEFAULT_CONFIG
         [''security'' \<mapsto> JDict [''require_manual_approval'' \<mapsto> JBool False]])
      ''T-1''
     = (False, [[''gh'', ''--version''],
                [''gh'', ''workflow'', ''run'', ''maestro-automation.yml'', ''--field'',
                 ''task_id=T-1'', ''--field'', ''action=deploy-production'']])"
proof -
  let ?cfg = "[''ci_cd'' \<mapsto> JDict [''deploy_timeout'' \<mapsto> JInt 60]]"
  let ?config = "merge_defaults ci_cd_agent_DEFAULT_CONFIG ?cfg"
  have h: "load_config ci_cd_agent_DEFAULT_CONFIG (Inr (JDict ?cfg)) = Inr ?config"
    by (simp add: load_config_def)
  have v: "config_get ?config ''security'' ''require_manual_approval'' = Inr (JBool True)
           \<and> truthy (JBool True)"
    unfolding config_get_def merge_defaults_lookup [OF ci_cd_agent_keys]
    by (simp add: ci_cd_agent_DEFAULT_CONFIG_def)
  have first: "trigger_production_deploy (\<lambda>argv. Inr (0, '''')) ?config ''T-1'' = (True, [])"
    using trigger_production_deploy_manual_approval [OF h, THEN conjunct1, rule_format, OF v] .
  let ?cfg2 = "[''security'' \<mapsto> JDict [''require_manual_approval'' \<mapsto> JBool False]]"
  let ?config2 = "merge_defaults ci_cd_agent_DEFAULT_CONFIG ?cfg2"
  let ?run = "\<lambda>argv. (Inr (if argv = [''gh'', ''--version''] then 0 else 1, '''')
                        :: py_exception + int \<times> string)"
  have h2: "load_config ci_cd_agent_DEFAULT_CONFIG (Inr (JDict ?cfg2)) = Inr ?config2"
    by (simp add: load_config_def)
  have v2: "config_get ?config2 ''security'' ''require_manual_approval'' = Inr (JBool False)"
    unfolding config_get_def merge_defaults_lookup [OF ci_cd_agent_keys]
    by (simp add: ci_cd_agent_DEFAULT_CONFIG_def)
  have w2: "config_get ?config2 ''ci_cd'' ''github_actions_workflow''
              = Inr (JString ''maestro-automation.yml'')"
    unfolding config_get_def merge_defaults_lookup [OF ci_cd_agent_keys]
    by (simp add: ci_cd_agent_DEFAULT_CONFIG_def ci_cd_section_def)
  from trigger_production_deploy_manual_approval
         [OF h2, of ?run "''T-1''" "''feature/T-1''", THEN conjunct2, THEN conjunct2]
  obtain v' workflow' where
    v': "config_get ?config2 ''security'' ''require_manual_approval'' = Inr v'"
    and w': "config_get ?config2 ''ci_cd'' ''github_actions_workflow'' = Inr workflow'"
    and p: "\<not> truthy v' \<longrightarrow>
             trigger_production_deploy ?run ?config2 ''T-1'' =
                 (case ?run [''gh'', ''--version''] of
                    Inl e \<Rightarrow>
                      (case e of
                         FileNotFoundError m \<Rightarrow> (True, [[''gh'', ''--version'']])
                       | _ \<Rightarrow> (False, [[''gh'', ''--version'']]))
                  | Inr (returncode, err) \<Rightarrow>
                      if returncode \<noteq> 0 then (True, [[''gh'', ''--version'']])
                      else
                        (case workflow' of
                           JString w \<Rightarrow>
                             (case ?run (workflow_argv w ''T-1'' ''deploy-production'') of
                                Inl e \<Rightarrow>
                                  (False, [[''gh'', ''--version''],
                                           workflow_argv w ''T-1'' ''deploy-production''])
                              | Inr (returncode', err') \<Rightarrow>
                                  (returncode' = 0,
                                   [[''gh'', ''--version''],
                                    workflow_argv w ''T-1'' ''deploy-production'']))
                         | _ \<Rightarrow> (False, [[''gh'', ''--version'']])))"
    by blast
  have ve: "v' = JBool False" using v' v2 by simp
  have we: "workflow' = JString ''maestro-automation.yml''" using w' w2 by simp
  have second: "trigger_production_deploy ?run ?config2 ''T-1''
     = (False, [[''gh'', ''--version''],
                [''gh'', ''workflow'', ''run'', ''maestro-automation.yml'', ''--field'',
                 ''task_id=T-1'', ''--field'', ''action=deploy-production'']])"
    using p unfolding ve we by (simp add: workflow_argv_def)
  show ?thesis using first second by (rule conjI)
qed


end
